theory Spec2Isabelle
  imports Main
begin

section \<open>Python values exchanged with the Baby Buddy server\<close>

text \<open>
  \<open>resp.json()\<close> returns a value of type \<open>Any\<close>: what Python's JSON decoder builds.
  Scalars are kept apart from containers, since only scalars are hashable and only they
  are rendered by the f-strings of the source. Numbers with a fractional part are outside
  the model. An object is the list of its bindings in insertion order, keys distinct.
\<close>

datatype atom = ANull | ABool bool | AInt int | AStr string

datatype json = Atom atom | JList "json list" | JObj "(string \<times> json) list"

abbreviation JNull :: json where "JNull \<equiv> Atom ANull"
abbreviation JBool :: "bool \<Rightarrow> json" where "JBool b \<equiv> Atom (ABool b)"
abbreviation JInt :: "int \<Rightarrow> json" where "JInt i \<equiv> Atom (AInt i)"
abbreviation JStr :: "string \<Rightarrow> json" where "JStr s \<equiv> Atom (AStr s)"

text \<open>The exceptions raised by the HTTP session and by \<open>resp.json()\<close>.
  \<open>ClientError\<close> stands for a \<open>ClientError\<close> that is not a \<open>ClientResponseError\<close>.\<close>

datatype io_exn = TimeoutError | ClientError | ClientResponseError int | JSONDecodeError

datatype update_arg = Cause io_exn | Message string

datatype exn =
    IO io_exn
  | KeyError json
  | TypeError
  | IndexError
  | UnboundLocalError string
  | RuntimeError
  | AuthorizationError
  | ConnectError io_exn
  | ConfigEntryAuthFailed
  | ConfigEntryNotReady io_exn
  | UpdateFailed update_arg

subsection \<open>Python operations on these values\<close>

text \<open>\<open>bool\<close> is a subclass of \<open>int\<close>: \<open>True == 1\<close> and both hash alike.\<close>

fun norm_atom :: "atom \<Rightarrow> atom" where
  "norm_atom (ABool b) = AInt (if b then 1 else 0)"
| "norm_atom a = a"

text \<open>Python's \<open>==\<close>. Dict equality ignores the order of the bindings.\<close>

function py_eq :: "json \<Rightarrow> json \<Rightarrow> bool" where
  "py_eq (Atom a) (Atom b) = (norm_atom a = norm_atom b)"
| "py_eq (JList xs) (JList ys) =
     (length xs = length ys \<and> (\<forall>(x, y) \<in> set (zip xs ys). py_eq x y))"
| "py_eq (JObj kvs) (JObj kws) =
     (length kvs = length kws \<and>
      (\<forall>(k, v) \<in> set kvs. case map_of kws k of None \<Rightarrow> False | Some w \<Rightarrow> py_eq v w))"
| "py_eq (Atom a) (JList ys) = False"
| "py_eq (Atom a) (JObj kws) = False"
| "py_eq (JList xs) (Atom b) = False"
| "py_eq (JList xs) (JObj kws) = False"
| "py_eq (JObj kvs) (Atom b) = False"
| "py_eq (JObj kvs) (JList ys) = False"
  by pat_completeness auto
termination
proof (relation "measure (\<lambda>(a, b). size a)")
  show "wf (measure (\<lambda>(a, b). size a))" by simp
next
  fix xs ys :: "json list" and z x y
  assume "z \<in> set (zip xs ys)" and "(x, y) = z"
  then have "x \<in> set xs" by (auto dest: set_zip_leftD)
  then have "size x \<le> size_list size xs" by (induction xs) auto
  then show "((x, y), (JList xs, JList ys)) \<in> measure (\<lambda>(a, b). size a)" by simp
next
  fix kvs kws :: "(string \<times> json) list" and z x y w
  assume "z \<in> set kvs" and "(x, y) = z"
  then have "(x, y) \<in> set kvs" by simp
  then have "size y \<le> size_list (size_prod (\<lambda>k. 0) size) kvs" by (induction kvs) auto
  then show "((y, w), (JObj kvs, JObj kws)) \<in> measure (\<lambda>(a, b). size a)" by simp
qed

text \<open>\<open>x in xs\<close> on a list.\<close>

definition py_in :: "json \<Rightarrow> json list \<Rightarrow> bool" where
  "py_in x xs = (\<exists>y \<in> set xs. py_eq x y)"

text \<open>Truthiness, as tested by \<open>if data\<close>.\<close>

fun py_truthy :: "json \<Rightarrow> bool" where
  "py_truthy (Atom ANull) = False"
| "py_truthy (Atom (ABool b)) = b"
| "py_truthy (Atom (AInt i)) = (i \<noteq> 0)"
| "py_truthy (Atom (AStr s)) = (s \<noteq> [])"
| "py_truthy (JList xs) = (xs \<noteq> [])"
| "py_truthy (JObj kvs) = (kvs \<noteq> [])"

text \<open>\<open>v[k]\<close> with a string \<open>k\<close>: only a dict can be indexed by a string.\<close>

fun py_getitem :: "json \<Rightarrow> string \<Rightarrow> exn + json" where
  "py_getitem (JObj kvs) k =
     (case map_of kvs k of None \<Rightarrow> Inl (KeyError (JStr k)) | Some v \<Rightarrow> Inr v)"
| "py_getitem _ k = Inl TypeError"

text \<open>\<open>v[0]\<close>.\<close>

fun py_index0 :: "json \<Rightarrow> exn + json" where
  "py_index0 (JList []) = Inl IndexError"
| "py_index0 (JList (x # xs)) = Inr x"
| "py_index0 (Atom (AStr [])) = Inl IndexError"
| "py_index0 (Atom (AStr (c # cs))) = Inr (JStr [c])"
| "py_index0 (JObj kvs) = Inl (KeyError (JInt 0))"
| "py_index0 (Atom _) = Inl TypeError"

text \<open>The elements a \<open>for\<close> loop visits.\<close>

fun py_iter :: "json \<Rightarrow> exn + json list" where
  "py_iter (JList xs) = Inr xs"
| "py_iter (Atom (AStr s)) = Inr (map (\<lambda>c. JStr [c]) s)"
| "py_iter (JObj kvs) = Inr (map (\<lambda>kv. JStr (fst kv)) kvs)"
| "py_iter (Atom _) = Inl TypeError"

subsection \<open>\<open>str()\<close> of a scalar, as an f-string renders it\<close>

definition digit_char :: "nat \<Rightarrow> char" where
  "digit_char d =
     (if d = 0 then CHR ''0'' else if d = 1 then CHR ''1'' else if d = 2 then CHR ''2''
      else if d = 3 then CHR ''3'' else if d = 4 then CHR ''4'' else if d = 5 then CHR ''5''
      else if d = 6 then CHR ''6'' else if d = 7 then CHR ''7'' else if d = 8 then CHR ''8''
      else CHR ''9'')"

fun str_nat :: "nat \<Rightarrow> string" where
  "str_nat n = (if n < 10 then [digit_char n] else str_nat (n div 10) @ [digit_char (n mod 10)])"

declare str_nat.simps [simp del]

definition str_int :: "int \<Rightarrow> string" where
  "str_int i = (if i < 0 then CHR ''-'' # str_nat (nat (- i)) else str_nat (nat i))"

fun py_str :: "atom \<Rightarrow> string" where
  "py_str ANull = ''None''"
| "py_str (ABool b) = (if b then ''True'' else ''False'')"
| "py_str (AInt i) = str_int i"
| "py_str (AStr s) = s"

section \<open>Constants\<close>

text \<open>From \<open>homeassistant.const\<close>.\<close>

definition ATTR_ID :: string where "ATTR_ID = ''id''"
definition HTTP_OK :: int where "HTTP_OK = 200"
definition HTTP_CREATED :: int where "HTTP_CREATED = 201"
definition HTTP_FORBIDDEN :: int where "HTTP_FORBIDDEN = 403"

text \<open>Modelled from the spec: \<open>const.py\<close> is not among the sources. The spec names the
  fields \<open>count\<close> and \<open>results\<close> of a listing and \<open>first_name\<close>, \<open>last_name\<close> of a
  child; the children endpoint is the one the root listing calls \<open>children\<close>. The table
  \<open>SENSOR_TYPES\<close> of the same file is a parameter of the functions that read it.\<close>

definition ATTR_CHILDREN :: string where "ATTR_CHILDREN = ''children''"
definition ATTR_COUNT :: string where "ATTR_COUNT = ''count''"
definition ATTR_RESULTS :: string where "ATTR_RESULTS = ''results''"
definition ATTR_FIRST_NAME :: string where "ATTR_FIRST_NAME = ''first_name''"
definition ATTR_LAST_NAME :: string where "ATTR_LAST_NAME = ''last_name''"

record sensor_description =
  key :: string

section \<open>The HTTP session\<close>

text \<open>
  The session is the outside world: a request either raises or returns a response, and
  may change the world. \<open>json_result\<close> is what \<open>await resp.json()\<close> does with the
  response. The ten second timeout of every call shows as \<open>TimeoutError\<close>.
\<close>

datatype http_method = GET | POST | PATCH | DELETE

record response =
  status :: int
  json_result :: "io_exn + json"

type_synonym 'w session =
  "http_method \<Rightarrow> string \<Rightarrow> (string \<times> string) list \<Rightarrow> (string \<times> json) list option \<Rightarrow> 'w
     \<Rightarrow> (io_exn + response) \<times> 'w"

section \<open>client.py: \<open>BabyBuddyClient\<close>\<close>

record BabyBuddyClient =
  headers :: "(string \<times> string) list"
  url :: string
  endpoints :: json

definition BabyBuddyClient_init :: "string \<Rightarrow> int \<Rightarrow> string \<Rightarrow> BabyBuddyClient" where
  "BabyBuddyClient_init host port api_key =
     \<lparr>headers = [(''Authorization'', ''Token '' @ api_key)],
      url = host @ '':'' @ str_int port,
      endpoints = JObj []\<rparr>"

text \<open>\<open>self.endpoints[endpoint]\<close>, used as a URL. The source declares
  \<open>endpoints: dict[str, str]\<close>; a listing value that is not a string is outside that type
  and the model stops there with \<open>TypeError\<close>.\<close>

definition endpoint_url :: "BabyBuddyClient \<Rightarrow> string \<Rightarrow> exn + string" where
  "endpoint_url c endpoint =
     (case py_getitem (endpoints c) endpoint of
        Inl e \<Rightarrow> Inl e
      | Inr (Atom (AStr u)) \<Rightarrow> Inr u
      | Inr _ \<Rightarrow> Inl TypeError)"

text \<open>The URL \<open>async_get\<close> builds; \<open>if endpoint\<close> and \<open>if entry\<close> test for a
  non-empty string.\<close>

definition get_url :: "BabyBuddyClient \<Rightarrow> string option \<Rightarrow> string option \<Rightarrow> exn + string" where
  "get_url c endpoint entry =
     (case endpoint of
        None \<Rightarrow> Inr (url c @ ''/api/'')
      | Some ep \<Rightarrow>
          if ep = [] then Inr (url c @ ''/api/'')
          else (case endpoint_url c ep of
                  Inl e \<Rightarrow> Inl e
                | Inr u \<Rightarrow>
                    (case entry of
                       None \<Rightarrow> Inr u
                     | Some s \<Rightarrow> if s = [] then Inr u else Inr (u @ s))))"

text \<open>What \<open>async_get\<close> makes of the session's answer: \<open>raise_for_status=True\<close>
  turns a response with status 400 or more into \<open>ClientResponseError\<close>, and the body
  is decoded by \<open>resp.json()\<close>.\<close>

fun read_json :: "io_exn + response \<Rightarrow> exn + json" where
  "read_json (Inl e) = Inl (IO e)"
| "read_json (Inr resp) =
     (if 400 \<le> status resp then Inl (IO (ClientResponseError (status resp)))
      else (case json_result resp of Inl e \<Rightarrow> Inl (IO e) | Inr v \<Rightarrow> Inr v))"

definition async_get ::
  "'w session \<Rightarrow> BabyBuddyClient \<Rightarrow> string option \<Rightarrow> string option \<Rightarrow> 'w \<Rightarrow> (exn + json) \<times> 'w" where
  "async_get session c endpoint entry w =
     (case get_url c endpoint entry of
        Inl e \<Rightarrow> (Inl e, w)
      | Inr u \<Rightarrow>
          (case session GET u (headers c) None w of
             (r, w') \<Rightarrow> (read_json r, w')))"

text \<open>
  What follows the request in \<open>async_post\<close>, \<open>async_patch\<close> and \<open>async_delete\<close>.
  \<open>except (TimeoutError, ClientError)\<close> logs the exception and falls through to
  \<open>resp.status\<close>, where \<open>resp\<close> was never assigned. An unexpected status makes the
  code await \<open>resp.json()\<close> for the log line. Logging itself has no effect on the result.
\<close>

fun after_request :: "int \<Rightarrow> io_exn + response \<Rightarrow> exn + unit" where
  "after_request expected (Inl JSONDecodeError) = Inl (IO JSONDecodeError)"
| "after_request expected (Inl e) = Inl (UnboundLocalError ''resp'')"
| "after_request expected (Inr resp) =
     (if status resp \<noteq> expected
      then (case json_result resp of Inl e \<Rightarrow> Inl (IO e) | Inr error \<Rightarrow> Inr ())
      else Inr ())"

definition async_post ::
  "'w session \<Rightarrow> BabyBuddyClient \<Rightarrow> string \<Rightarrow> (string \<times> json) list \<Rightarrow> 'w \<Rightarrow> (exn + unit) \<times> 'w" where
  "async_post session c endpoint data w =
     (case endpoint_url c endpoint of
        Inl e \<Rightarrow> (Inl e, w)
      | Inr u \<Rightarrow>
          (case session POST u (headers c) (Some data) w of
             (r, w') \<Rightarrow> (after_request HTTP_CREATED r, w')))"

definition async_patch ::
  "'w session \<Rightarrow> BabyBuddyClient \<Rightarrow> string \<Rightarrow> string \<Rightarrow> (string \<times> json) list \<Rightarrow> 'w
     \<Rightarrow> (exn + unit) \<times> 'w" where
  "async_patch session c endpoint entry data w =
     (case endpoint_url c endpoint of
        Inl e \<Rightarrow> (Inl e, w)
      | Inr u \<Rightarrow>
          (case session PATCH (u @ entry @ ''/'') (headers c) (Some data) w of
             (r, w') \<Rightarrow> (after_request HTTP_OK r, w')))"

definition async_delete ::
  "'w session \<Rightarrow> BabyBuddyClient \<Rightarrow> string \<Rightarrow> string \<Rightarrow> 'w \<Rightarrow> (exn + unit) \<times> 'w" where
  "async_delete session c endpoint entry w =
     (case endpoint_url c endpoint of
        Inl e \<Rightarrow> (Inl e, w)
      | Inr u \<Rightarrow>
          (case session DELETE (u @ entry @ ''/'') (headers c) None w of
             (r, w') \<Rightarrow> (after_request 204 r, w')))"

text \<open>The two \<open>except\<close> clauses of \<open>async_connect\<close>; anything else propagates.\<close>

fun connect_except :: "exn \<Rightarrow> exn" where
  "connect_except (IO (ClientResponseError s)) = AuthorizationError"
| "connect_except (IO TimeoutError) = ConnectError TimeoutError"
| "connect_except (IO ClientError) = ConnectError ClientError"
| "connect_except e = e"

definition async_connect ::
  "'w session \<Rightarrow> BabyBuddyClient \<Rightarrow> 'w \<Rightarrow> (exn + BabyBuddyClient) \<times> 'w" where
  "async_connect session c w =
     (case async_get session c None None w of
        (Inl e, w') \<Rightarrow> (Inl (connect_except e), w')
      | (Inr v, w') \<Rightarrow> (Inr (c\<lparr>endpoints := v\<rparr>), w'))"

section \<open>The host's device registry\<close>

text \<open>
  A device as \<open>async_remove_deleted_childs\<close> reads it. \<open>identifiers\<close> is a set of
  pairs, listed in the order \<open>iter\<close> walks it. The registry keeps the devices in a dict
  keyed by their id.
\<close>

record device =
  device_id :: string
  config_entries :: "string list"
  identifiers :: "(string \<times> json) list"

definition async_entries_for_config_entry :: "device list \<Rightarrow> string \<Rightarrow> device list" where
  "async_entries_for_config_entry dr entry_id = filter (\<lambda>d. entry_id \<in> set (config_entries d)) dr"

definition async_remove_device :: "device list \<Rightarrow> string \<Rightarrow> device list" where
  "async_remove_device dr did = filter (\<lambda>d. device_id d \<noteq> did) dr"

section \<open>__init__.py: \<open>BabyBuddyCoordinator\<close>\<close>

record BabyBuddyCoordinator =
  client :: BabyBuddyClient
  config_entry_id :: string
  child_ids :: "json list"

text \<open>The snapshot \<open>child_data\<close>: a dict from child id to a dict from endpoint key to
  the latest record. A dict files \<open>True\<close> and \<open>1\<close> under one key.\<close>

type_synonym snapshot = "atom \<rightharpoonup> (string \<rightharpoonup> json)"

text \<open>\<open>next(iter(device.identifiers))[1]\<close>: the second component of the first
  identifier. On an empty set \<open>next\<close> raises \<open>StopIteration\<close>, which a coroutine turns
  into \<open>RuntimeError\<close>; that is \<open>None\<close> here.\<close>

definition child_identifier :: "device \<Rightarrow> json option" where
  "child_identifier d = (case identifiers d of [] \<Rightarrow> None | ident # _ \<Rightarrow> Some (snd ident))"

fun remove_loop :: "json list \<Rightarrow> device list \<Rightarrow> device list \<Rightarrow> (exn + unit) \<times> device list" where
  "remove_loop ids [] dr = (Inr (), dr)"
| "remove_loop ids (d # ds) dr =
     (case child_identifier d of
        None \<Rightarrow> (Inl RuntimeError, dr)
      | Some i \<Rightarrow>
          if \<not> py_in i ids
          then remove_loop ids ds (async_remove_device dr (device_id d))
          else remove_loop ids ds dr)"

definition async_remove_deleted_childs ::
  "BabyBuddyCoordinator \<Rightarrow> device list \<Rightarrow> (exn + unit) \<times> device list" where
  "async_remove_deleted_childs coord dr =
     remove_loop (child_ids coord)
       (async_entries_for_config_entry dr (config_entry_id coord)) dr"

text \<open>The \<open>try\<close> around the children fetch. A \<open>ClientResponseError\<close> that is not
  forbidden leaves the handler without raising, with \<open>children_list\<close> still \<open>{}\<close>.\<close>

fun children_fetch :: "exn + json \<Rightarrow> exn + json" where
  "children_fetch (Inr v) = Inr v"
| "children_fetch (Inl (IO (ClientResponseError s))) =
     (if s = HTTP_FORBIDDEN then Inl ConfigEntryAuthFailed else Inr (JObj []))"
| "children_fetch (Inl (IO TimeoutError)) = Inl (UpdateFailed (Cause TimeoutError))"
| "children_fetch (Inl (IO ClientError)) = Inl (UpdateFailed (Cause ClientError))"
| "children_fetch (Inl e) = Inl e"

text \<open>The \<open>except\<close> clauses of the per-endpoint fetch: \<open>None\<close> is \<open>continue\<close>. The debug
  line of the first clause is an f-string that reads the child's names.\<close>

fun fetch_except :: "json \<Rightarrow> exn \<Rightarrow> exn option" where
  "fetch_except child (IO (ClientResponseError s)) =
     (case py_getitem child ATTR_FIRST_NAME of
        Inl e \<Rightarrow> Some e
      | Inr _ \<Rightarrow>
          (case py_getitem child ATTR_LAST_NAME of
             Inl e \<Rightarrow> Some e
           | Inr _ \<Rightarrow> None))"
| "fetch_except child (IO TimeoutError) = None"
| "fetch_except child (IO ClientError) = None"
| "fetch_except child e = Some e"

text \<open>\<open>data[0] if data else {}\<close>.\<close>

definition latest :: "json \<Rightarrow> exn + json" where
  "latest data = (if py_truthy data then py_index0 data else Inr (JObj []))"

text \<open>The query suffix \<open>f"?child={child[ATTR_ID]}&limit=1"\<close> for a scalar id.\<close>

definition child_query :: "atom \<Rightarrow> string" where
  "child_query a = ''?child='' @ py_str a @ ''&limit=1''"

text \<open>The loop over \<open>SENSOR_TYPES\<close> for one child whose id is the scalar \<open>a\<close>.\<close>

fun endpoint_loop ::
  "'w session \<Rightarrow> BabyBuddyClient \<Rightarrow> json \<Rightarrow> atom \<Rightarrow> sensor_description list \<Rightarrow> snapshot \<Rightarrow> 'w
     \<Rightarrow> (exn + snapshot) \<times> 'w" where
  "endpoint_loop session c child a [] child_data w = (Inr child_data, w)"
| "endpoint_loop session c child a (endpoint # rest) child_data w =
     (case async_get session c (Some (key endpoint)) (Some (child_query a)) w of
        (Inl e, w') \<Rightarrow>
          (case fetch_except child e of
             Some e' \<Rightarrow> (Inl e', w')
           | None \<Rightarrow> endpoint_loop session c child a rest child_data w')
      | (Inr endpoint_data, w') \<Rightarrow>
          (case py_getitem endpoint_data ATTR_RESULTS of
             Inl e \<Rightarrow> (Inl e, w')
           | Inr data \<Rightarrow>
               (case latest data of
                  Inl e \<Rightarrow> (Inl e, w')
                | Inr v \<Rightarrow>
                    (case child_data (norm_atom a) of
                       None \<Rightarrow> (Inl (KeyError (Atom a)), w')
                     | Some r \<Rightarrow>
                         endpoint_loop session c child a rest
                           (child_data(norm_atom a \<mapsto> r(key endpoint \<mapsto> v))) w'))))"

text \<open>\<open>child_data.setdefault(k, {})\<close>.\<close>

definition setdefault_empty :: "snapshot \<Rightarrow> atom \<Rightarrow> snapshot" where
  "setdefault_empty child_data k =
     (case child_data k of None \<Rightarrow> child_data(k \<mapsto> Map.empty) | Some _ \<Rightarrow> child_data)"

text \<open>\<open>if i not in self.child_ids: self.child_ids.append(i)\<close>.\<close>

definition note_child_id :: "json \<Rightarrow> json list \<Rightarrow> json list" where
  "note_child_id i ids = (if \<not> py_in i ids then ids @ [i] else ids)"

text \<open>The loop over the children. The list \<open>child_ids\<close> is changed in place, so it is
  returned on every path. \<open>setdefault\<close> raises \<open>TypeError\<close> for an unhashable id.\<close>

fun child_loop ::
  "'w session \<Rightarrow> BabyBuddyClient \<Rightarrow> sensor_description list \<Rightarrow> json list \<Rightarrow> json list
     \<Rightarrow> snapshot \<Rightarrow> 'w \<Rightarrow> (exn + snapshot) \<times> json list \<times> 'w" where
  "child_loop session c SENSOR_TYPES [] ids child_data w = (Inr child_data, ids, w)"
| "child_loop session c SENSOR_TYPES (child # rest) ids child_data w =
     (case py_getitem child ATTR_ID of
        Inl e \<Rightarrow> (Inl e, ids, w)
      | Inr i \<Rightarrow>
          (case i of
             Atom a \<Rightarrow>
               (case endpoint_loop session c child a SENSOR_TYPES
                       (setdefault_empty child_data (norm_atom a)) w of
                  (Inl e, w') \<Rightarrow> (Inl e, note_child_id i ids, w')
                | (Inr child_data', w') \<Rightarrow>
                    child_loop session c SENSOR_TYPES rest (note_child_id i ids) child_data' w')
           | _ \<Rightarrow> (Inl TypeError, note_child_id i ids, w)))"

definition no_children :: string where
  "no_children = ''No children found. Please add at least one child.''"

text \<open>One refresh pass. It returns the outcome, the coordinator, the device registry
  and the world as the pass leaves them.\<close>

definition async_update ::
  "'w session \<Rightarrow> sensor_description list \<Rightarrow> BabyBuddyCoordinator \<Rightarrow> device list \<Rightarrow> 'w
     \<Rightarrow> (exn + json \<times> snapshot) \<times> BabyBuddyCoordinator \<times> device list \<times> 'w" where
  "async_update session SENSOR_TYPES coord dr w =
     (case async_get session (client coord) (Some ATTR_CHILDREN) None w of
        (r, w1) \<Rightarrow>
          (case children_fetch r of
             Inl e \<Rightarrow> (Inl e, coord, dr, w1)
           | Inr children_list \<Rightarrow>
               (case py_getitem children_list ATTR_COUNT of
                  Inl e \<Rightarrow> (Inl e, coord, dr, w1)
                | Inr n \<Rightarrow>
                    if py_eq n (JInt 0)
                    then (Inl (UpdateFailed (Message no_children)), coord, dr, w1)
                    else
                      (case py_getitem children_list ATTR_RESULTS of
                         Inl e \<Rightarrow> (Inl e, coord, dr, w1)
                       | Inr results \<Rightarrow>
                           (case py_iter results of
                              Inl e \<Rightarrow> (Inl e, coord, dr, w1)
                            | Inr children \<Rightarrow>
                                (case child_loop session (client coord) SENSOR_TYPES children
                                        (child_ids coord) Map.empty w1 of
                                   (Inl e, ids, w2) \<Rightarrow> (Inl e, coord\<lparr>child_ids := ids\<rparr>, dr, w2)
                                 | (Inr child_data, ids, w2) \<Rightarrow>
                                     (case async_remove_deleted_childs
                                             (coord\<lparr>child_ids := ids\<rparr>) dr of
                                        (Inl e, dr') \<Rightarrow>
                                          (Inl e, coord\<lparr>child_ids := ids\<rparr>, dr', w2)
                                      | (Inr _, dr') \<Rightarrow>
                                          (Inr (results, child_data),
                                           coord\<lparr>child_ids := ids\<rparr>, dr', w2))))))))"

text \<open>The two \<open>except\<close> clauses of \<open>async_setup\<close>.\<close>

fun setup_except :: "exn \<Rightarrow> exn" where
  "setup_except AuthorizationError = ConfigEntryAuthFailed"
| "setup_except (ConnectError e) = ConfigEntryNotReady e"
| "setup_except e = e"

text \<open>\<open>async_setup\<close> up to the registration of the \<open>add_child\<close> service, which is the
  host's business.\<close>

definition async_setup ::
  "'w session \<Rightarrow> BabyBuddyCoordinator \<Rightarrow> 'w \<Rightarrow> (exn + BabyBuddyCoordinator) \<times> 'w" where
  "async_setup session coord w =
     (case async_connect session (client coord) w of
        (Inl e, w') \<Rightarrow> (Inl (setup_except e), w')
      | (Inr c, w') \<Rightarrow> (Inr (coord\<lparr>client := c\<rparr>), w'))"

text \<open>A sequence of refresh passes, whatever each of them returns or raises.\<close>

fun refresh_passes ::
  "'w session \<Rightarrow> sensor_description list \<Rightarrow> nat \<Rightarrow> BabyBuddyCoordinator \<Rightarrow> device list \<Rightarrow> 'w
     \<Rightarrow> BabyBuddyCoordinator \<times> device list \<times> 'w" where
  "refresh_passes session SENSOR_TYPES 0 coord dr w = (coord, dr, w)"
| "refresh_passes session SENSOR_TYPES (Suc n) coord dr w =
     (case async_update session SENSOR_TYPES coord dr w of
        (r, coord', dr', w') \<Rightarrow> refresh_passes session SENSOR_TYPES n coord' dr' w')"

section \<open>The fetches of a pass\<close>

text \<open>The requests for endpoint data that a pass makes, in the order in which it makes
  them: for each request the endpoint key, the child id and the world in which the
  request is made. The three functions follow \<open>endpoint_loop\<close>, \<open>child_loop\<close> and
  \<open>async_update\<close> branch by branch and end where these end, so that for a pass that
  raises they list the requests made up to there. A statement about what the server
  answers during a pass speaks of these requests, and of no other.\<close>

fun endpoint_fetches ::
  "'w session \<Rightarrow> BabyBuddyClient \<Rightarrow> json \<Rightarrow> atom \<Rightarrow> sensor_description list \<Rightarrow> snapshot \<Rightarrow> 'w
     \<Rightarrow> (string \<times> atom \<times> 'w) list" where
  "endpoint_fetches session c child a [] child_data w = []"
| "endpoint_fetches session c child a (endpoint # rest) child_data w =
     (key endpoint, a, w) #
     (case async_get session c (Some (key endpoint)) (Some (child_query a)) w of
        (Inl e, w') \<Rightarrow>
          (case fetch_except child e of
             Some e' \<Rightarrow> []
           | None \<Rightarrow> endpoint_fetches session c child a rest child_data w')
      | (Inr endpoint_data, w') \<Rightarrow>
          (case py_getitem endpoint_data ATTR_RESULTS of
             Inl e \<Rightarrow> []
           | Inr data \<Rightarrow>
               (case latest data of
                  Inl e \<Rightarrow> []
                | Inr v \<Rightarrow>
                    (case child_data (norm_atom a) of
                       None \<Rightarrow> []
                     | Some r \<Rightarrow>
                         endpoint_fetches session c child a rest
                           (child_data(norm_atom a \<mapsto> r(key endpoint \<mapsto> v))) w'))))"

fun child_fetches ::
  "'w session \<Rightarrow> BabyBuddyClient \<Rightarrow> sensor_description list \<Rightarrow> json list \<Rightarrow> snapshot \<Rightarrow> 'w
     \<Rightarrow> (string \<times> atom \<times> 'w) list" where
  "child_fetches session c SENSOR_TYPES [] child_data w = []"
| "child_fetches session c SENSOR_TYPES (child # rest) child_data w =
     (case py_getitem child ATTR_ID of
        Inl e \<Rightarrow> []
      | Inr i \<Rightarrow>
          (case i of
             Atom a \<Rightarrow>
               endpoint_fetches session c child a SENSOR_TYPES
                 (setdefault_empty child_data (norm_atom a)) w @
               (case endpoint_loop session c child a SENSOR_TYPES
                       (setdefault_empty child_data (norm_atom a)) w of
                  (Inl e, w') \<Rightarrow> []
                | (Inr child_data', w') \<Rightarrow>
                    child_fetches session c SENSOR_TYPES rest child_data' w')
           | _ \<Rightarrow> []))"

definition pass_fetches ::
  "'w session \<Rightarrow> sensor_description list \<Rightarrow> BabyBuddyCoordinator \<Rightarrow> 'w
     \<Rightarrow> (string \<times> atom \<times> 'w) list" where
  "pass_fetches session SENSOR_TYPES coord w =
     (case async_get session (client coord) (Some ATTR_CHILDREN) None w of
        (r, w1) \<Rightarrow>
          (case children_fetch r of
             Inl e \<Rightarrow> []
           | Inr children_list \<Rightarrow>
               (case py_getitem children_list ATTR_COUNT of
                  Inl e \<Rightarrow> []
                | Inr n \<Rightarrow>
                    if py_eq n (JInt 0)
                    then []
                    else
                      (case py_getitem children_list ATTR_RESULTS of
                         Inl e \<Rightarrow> []
                       | Inr results \<Rightarrow>
                           (case py_iter results of
                              Inl e \<Rightarrow> []
                            | Inr children \<Rightarrow>
                                child_fetches session (client coord) SENSOR_TYPES children
                                  Map.empty w1)))))"

section \<open>A small server to run the code on\<close>

text \<open>A session that answers by method and URL alone and counts the requests it
  served.\<close>

definition scripted_session :: "(http_method \<Rightarrow> string \<Rightarrow> io_exn + response) \<Rightarrow> nat session" where
  "scripted_session answer m u h d w = (answer m u, Suc w)"

definition ok_json :: "json \<Rightarrow> io_exn + response" where
  "ok_json v = Inr \<lparr>status = HTTP_OK, json_result = Inr v\<rparr>"

definition error_page :: "int \<Rightarrow> io_exn + response" where
  "error_page s = Inr \<lparr>status = s, json_result = Inl JSONDecodeError\<rparr>"

definition demo_listing :: json where
  "demo_listing =
     JObj [(''children'', JStr ''h:80/api/children/''), (''feeding'', JStr ''h:80/api/feeding/'')]"

text \<open>The server at \<open>h:80\<close>: the root listing, the children list and the latest feeding
  of child 1; the answers to the last two are parameters.\<close>

definition demo_server ::
  "(io_exn + response) \<Rightarrow> (io_exn + response) \<Rightarrow> http_method \<Rightarrow> string \<Rightarrow> io_exn + response" where
  "demo_server children feeding m u =
     (if m = GET \<and> u = ''h:80/api/'' then ok_json demo_listing
      else if m = GET \<and> u = ''h:80/api/children/'' then children
      else if m = GET \<and> u = ''h:80/api/feeding/?child=1&limit=1'' then feeding
      else error_page 404)"

definition demo_client :: BabyBuddyClient where
  "demo_client = (BabyBuddyClient_init ''h'' 80 ''k'')\<lparr>endpoints := demo_listing\<rparr>"

definition demo_coordinator :: BabyBuddyCoordinator where
  "demo_coordinator = \<lparr>client = demo_client, config_entry_id = ''e1'', child_ids = []\<rparr>"

text \<open>The one child of the examples, the children list that holds it, and what the
  feeding endpoint answers: nothing, or one record.\<close>

definition demo_child :: json where
  "demo_child = JObj [(''id'', JInt 1), (''first_name'', JStr ''A''), (''last_name'', JStr ''B'')]"

definition demo_children :: json where
  "demo_children = JObj [(''count'', JInt 1), (''results'', JList [demo_child])]"

definition no_feeding :: json where
  "no_feeding = JObj [(''results'', JList [])]"

definition demo_feeding :: json where
  "demo_feeding = JObj [(''results'', JList [JObj [(''id'', JInt 5), (''child'', JInt 1)]])]"

definition feeding_only :: "sensor_description list" where
  "feeding_only = [\<lparr>key = ''feeding''\<rparr>]"

text \<open>A registry with two devices of the entry \<open>e1\<close>, for the children 1 and 2, and a
  device of another integration.\<close>

definition demo_devices :: "device list" where
  "demo_devices =
     [\<lparr>device_id = ''d1'', config_entries = [''e1''], identifiers = [(''babybuddy'', JInt 1)]\<rparr>,
      \<lparr>device_id = ''d2'', config_entries = [''e1''], identifiers = [(''babybuddy'', JInt 2)]\<rparr>,
      \<lparr>device_id = ''d3'', config_entries = [''e2''], identifiers = [(''other'', JInt 2)]\<rparr>]"

text \<open>A server that has a feeding record for child 1 during its first two requests and
  answers 404 for it afterwards.\<close>

definition fading_session :: "nat session" where
  "fading_session m u h d w =
     (demo_server (ok_json demo_children)
        (if w < 2 then ok_json demo_feeding else error_page 404) m u, Suc w)"

text \<open>A server whose second request times out. Every other request is answered, the
  feeding endpoint with a record.\<close>

definition blip_session :: "nat session" where
  "blip_session m u h d w =
     (if w = 1 then Inl TimeoutError
      else demo_server (ok_json demo_children) (ok_json demo_feeding) m u, Suc w)"

section \<open>Running the small server\<close>

lemma str_int_80: "str_int 80 = ''80''"
  by (simp add: str_int_def str_nat.simps digit_char_def)

lemma demo_client_eq:
  "demo_client =
     \<lparr>headers = [(''Authorization'', ''Token k'')], url = ''h:80'', endpoints = demo_listing\<rparr>"
  by (simp add: demo_client_def BabyBuddyClient_init_def str_int_80)

lemma demo_coordinator_client: "client demo_coordinator = demo_client"
  by (simp add: demo_coordinator_def)

lemma demo_children_url:
  "get_url demo_client (Some ATTR_CHILDREN) None = Inr ''h:80/api/children/''"
  by (simp add: get_url_def endpoint_url_def demo_client_eq demo_listing_def ATTR_CHILDREN_def)

lemma demo_children_get:
  "async_get (scripted_session (demo_server ch fd)) demo_client (Some ATTR_CHILDREN) None w =
     (read_json ch, Suc w)"
  by (simp add: async_get_def demo_children_url scripted_session_def demo_server_def)

lemma read_json_error_page:
  "400 \<le> s \<Longrightarrow> read_json (error_page s) = Inl (IO (ClientResponseError s))"
  by (simp add: error_page_def)

lemma read_json_ok: "read_json (ok_json v) = Inr v"
  by (simp add: ok_json_def HTTP_OK_def)

lemma demo_child_id: "py_getitem demo_child ATTR_ID = Inr (JInt 1)"
  by (simp add: demo_child_def ATTR_ID_def)

lemma demo_children_count: "py_getitem demo_children ATTR_COUNT = Inr (JInt 1)"
  by (simp add: demo_children_def ATTR_COUNT_def)

lemma demo_children_results: "py_getitem demo_children ATTR_RESULTS = Inr (JList [demo_child])"
  by (simp add: demo_children_def ATTR_RESULTS_def ATTR_COUNT_def)

lemma child_query_1: "child_query (AInt 1) = ''?child=1&limit=1''"
  by (simp add: child_query_def str_int_def str_nat.simps digit_char_def)

lemma demo_feeding_get:
  "async_get (scripted_session (demo_server ch fd)) demo_client (Some ''feeding'')
     (Some (child_query (AInt 1))) w = (read_json fd, Suc w)"
  by (simp add: async_get_def get_url_def endpoint_url_def demo_client_eq demo_listing_def
      scripted_session_def demo_server_def child_query_1)

lemma demo_remove:
  "async_remove_deleted_childs (demo_coordinator\<lparr>child_ids := [JInt 1]\<rparr>) demo_devices =
    (Inr (),
     [\<lparr>device_id = ''d1'', config_entries = [''e1''], identifiers = [(''babybuddy'', JInt 1)]\<rparr>,
      \<lparr>device_id = ''d3'', config_entries = [''e2''], identifiers = [(''other'', JInt 2)]\<rparr>])"
  by (simp add: async_remove_deleted_childs_def async_entries_for_config_entry_def demo_devices_def
       demo_coordinator_def py_in_def async_remove_device_def child_identifier_def)

lemma demo_child_loop:
  "child_loop (scripted_session (demo_server ch (ok_json no_feeding))) demo_client feeding_only
     [demo_child] ids Map.empty w =
   (Inr [AInt 1 \<mapsto> [''feeding'' \<mapsto> JObj []]], note_child_id (JInt 1) ids, Suc w)"
  by (simp add: demo_child_id feeding_only_def demo_feeding_get read_json_ok no_feeding_def
      ATTR_RESULTS_def latest_def setdefault_empty_def)

lemma async_remove_deleted_childs_nil: "async_remove_deleted_childs coord [] = (Inr (), [])"
  by (simp add: async_remove_deleted_childs_def async_entries_for_config_entry_def)

lemma demo_pass:
  "async_update (scripted_session (demo_server (ok_json demo_children) (ok_json no_feeding)))
     feeding_only demo_coordinator demo_devices 0 =
   (Inr (JList [demo_child], [AInt 1 \<mapsto> [''feeding'' \<mapsto> JObj []]]),
    demo_coordinator\<lparr>child_ids := [JInt 1]\<rparr>,
    [\<lparr>device_id = ''d1'', config_entries = [''e1''], identifiers = [(''babybuddy'', JInt 1)]\<rparr>,
     \<lparr>device_id = ''d3'', config_entries = [''e2''], identifiers = [(''other'', JInt 2)]\<rparr>],
    2)"
proof -
  have ids: "child_ids demo_coordinator = []" by (simp add: demo_coordinator_def)
  have n: "note_child_id (JInt 1) [] = [JInt 1]" by (simp add: note_child_id_def py_in_def)
  show ?thesis
    by (simp add: async_update_def demo_coordinator_client demo_children_get read_json_ok
        demo_children_count demo_children_results demo_child_loop ids n demo_remove
        del: child_loop.simps)
qed

lemma demo_pass_ids:
  "async_update (scripted_session (demo_server (ok_json demo_children) (ok_json no_feeding)))
     feeding_only (demo_coordinator\<lparr>child_ids := ids\<rparr>) [] w =
   (Inr (JList [demo_child], [AInt 1 \<mapsto> [''feeding'' \<mapsto> JObj []]]),
    demo_coordinator\<lparr>child_ids := note_child_id (JInt 1) ids\<rparr>, [], Suc (Suc w))"
proof -
  have c: "client (demo_coordinator\<lparr>child_ids := ids\<rparr>) = demo_client"
    by (simp add: demo_coordinator_def)
  show ?thesis
    by (simp add: async_update_def c demo_children_get read_json_ok
        demo_children_count demo_children_results demo_child_loop async_remove_deleted_childs_nil
        del: child_loop.simps)
qed

lemma fading_children_get:
  "async_get fading_session demo_client (Some ATTR_CHILDREN) None w = (Inr demo_children, Suc w)"
  by (simp add: async_get_def demo_children_url fading_session_def demo_server_def read_json_ok)

lemma fading_feeding_get:
  "async_get fading_session demo_client (Some ''feeding'') (Some (child_query (AInt 1))) w =
     (if w < 2 then Inr demo_feeding else Inl (IO (ClientResponseError 404)), Suc w)"
  by (simp add: async_get_def get_url_def endpoint_url_def demo_client_eq demo_listing_def
      fading_session_def demo_server_def child_query_1 read_json_ok read_json_error_page)

lemma fading_child_loop_early:
  "w < 2 \<Longrightarrow>
   child_loop fading_session demo_client feeding_only [demo_child] ids Map.empty w =
     (Inr [AInt 1 \<mapsto> [''feeding'' \<mapsto> JObj [(''id'', JInt 5), (''child'', JInt 1)]]],
      note_child_id (JInt 1) ids, Suc w)"
  by (simp add: demo_child_id feeding_only_def fading_feeding_get demo_feeding_def
      ATTR_RESULTS_def latest_def setdefault_empty_def)

lemma fading_child_loop_late:
  "\<not> w < 2 \<Longrightarrow>
   child_loop fading_session demo_client feeding_only [demo_child] ids Map.empty w =
     (Inr [AInt 1 \<mapsto> Map.empty], note_child_id (JInt 1) ids, Suc w)"
  by (simp add: demo_child_id feeding_only_def fading_feeding_get
      demo_child_def ATTR_FIRST_NAME_def ATTR_LAST_NAME_def ATTR_ID_def setdefault_empty_def)

lemma fading_first_pass:
  "async_update fading_session feeding_only demo_coordinator [] 0 =
     (Inr (JList [demo_child],
           [AInt 1 \<mapsto> [''feeding'' \<mapsto> JObj [(''id'', JInt 5), (''child'', JInt 1)]]]),
      demo_coordinator\<lparr>child_ids := [JInt 1]\<rparr>, [], 2)"
proof -
  have ids: "child_ids demo_coordinator = []" by (simp add: demo_coordinator_def)
  have n: "note_child_id (JInt 1) [] = [JInt 1]" by (simp add: note_child_id_def py_in_def)
  show ?thesis
    by (simp add: async_update_def demo_coordinator_client fading_children_get
        demo_children_count demo_children_results fading_child_loop_early
        ids n async_remove_deleted_childs_nil del: child_loop.simps)
qed

lemma fading_second_pass:
  "async_update fading_session feeding_only (demo_coordinator\<lparr>child_ids := [JInt 1]\<rparr>) [] 2 =
     (Inr (JList [demo_child], [AInt 1 \<mapsto> Map.empty]),
      demo_coordinator\<lparr>child_ids := [JInt 1]\<rparr>, [], 4)"
proof -
  have c: "client (demo_coordinator\<lparr>child_ids := [JInt 1]\<rparr>) = demo_client"
    by (simp add: demo_coordinator_def)
  have n: "note_child_id (JInt 1) [JInt 1] = [JInt 1]" by (simp add: note_child_id_def py_in_def)
  show ?thesis
    by (simp add: async_update_def c fading_children_get
        demo_children_count demo_children_results fading_child_loop_late
        n async_remove_deleted_childs_nil del: child_loop.simps)
qed

lemma blip_children_get:
  "w \<noteq> 1 \<Longrightarrow>
   async_get blip_session demo_client (Some ATTR_CHILDREN) None w = (Inr demo_children, Suc w)"
  by (simp add: async_get_def demo_children_url blip_session_def demo_server_def read_json_ok)

lemma blip_feeding_get:
  "async_get blip_session demo_client (Some ''feeding'') (Some (child_query (AInt 1))) w =
     (if w = 1 then Inl (IO TimeoutError) else Inr demo_feeding, Suc w)"
  by (simp add: async_get_def get_url_def endpoint_url_def demo_client_eq demo_listing_def
      blip_session_def demo_server_def child_query_1 read_json_ok)

lemma blip_child_loop:
  "w = 1 \<Longrightarrow>
   child_loop blip_session demo_client feeding_only [demo_child] ids Map.empty w =
     (Inr [AInt 1 \<mapsto> Map.empty], note_child_id (JInt 1) ids, Suc w)"
  by (simp add: demo_child_id feeding_only_def blip_feeding_get setdefault_empty_def)

lemma blip_pass:
  "async_update blip_session feeding_only demo_coordinator [] 0 =
     (Inr (JList [demo_child], [AInt 1 \<mapsto> Map.empty]),
      demo_coordinator\<lparr>child_ids := [JInt 1]\<rparr>, [], 2)"
proof -
  have ids: "child_ids demo_coordinator = []" by (simp add: demo_coordinator_def)
  have n: "note_child_id (JInt 1) [] = [JInt 1]" by (simp add: note_child_id_def py_in_def)
  show ?thesis
    by (simp add: async_update_def demo_coordinator_client blip_children_get
        demo_children_count demo_children_results blip_child_loop
        ids n async_remove_deleted_childs_nil del: child_loop.simps)
qed

lemma one_child_fetches:
  "child_fetches session demo_client feeding_only [demo_child] Map.empty w
     = [(''feeding'', AInt 1, w)]"
  by (simp add: demo_child_id feeding_only_def split: prod.splits sum.splits option.splits)

lemma one_child_pass_fetches:
  assumes "async_get session demo_client (Some ATTR_CHILDREN) None w = (Inr demo_children, w1)"
    and "client coord = demo_client"
  shows "pass_fetches session feeding_only coord w = [(''feeding'', AInt 1, w1)]"
  using assms
  by (simp add: pass_fetches_def demo_children_count demo_children_results one_child_fetches
      del: child_fetches.simps)

section \<open>The children fetch of a refresh pass\<close>

text \<open>
  C3. When the children fetch of a pass fails with a \<open>ClientResponseError\<close> whose
  status is forbidden, \<open>async_update\<close> raises \<open>ConfigEntryAuthFailed\<close>. On a timeout
  or another client error it raises \<open>UpdateFailed\<close> with that error, and the two
  outcomes differ.
\<close>

theorem children_fetch_forbidden:
  assumes "fst (async_get session (client coord) (Some ATTR_CHILDREN) None w) = Inl (IO e)"
  shows "(e = ClientResponseError HTTP_FORBIDDEN \<longrightarrow>
            fst (async_update session SENSOR_TYPES coord dr w) = Inl ConfigEntryAuthFailed)
       \<and> (e = TimeoutError \<or> e = ClientError \<longrightarrow>
            fst (async_update session SENSOR_TYPES coord dr w) = Inl (UpdateFailed (Cause e)))
       \<and> ConfigEntryAuthFailed \<noteq> UpdateFailed arg"
  using assms by (auto simp: async_update_def split: prod.splits)

theorem children_fetch_forbidden_witness:
  "fst (async_update (scripted_session (demo_server (error_page 403) (error_page 403)))
          feeding_only demo_coordinator [] 0) = Inl ConfigEntryAuthFailed
   \<and> fst (async_update (scripted_session (demo_server (Inl TimeoutError) (error_page 403)))
          feeding_only demo_coordinator [] 0) = Inl (UpdateFailed (Cause TimeoutError))"
proof -
  have 1: "fst (async_get (scripted_session (demo_server (error_page 403) (error_page 403)))
             (client demo_coordinator) (Some ATTR_CHILDREN) None 0)
           = Inl (IO (ClientResponseError 403))"
    by (simp add: demo_coordinator_client demo_children_get read_json_error_page)
  have 2: "fst (async_get (scripted_session (demo_server (Inl TimeoutError) (error_page 403)))
             (client demo_coordinator) (Some ATTR_CHILDREN) None 0) = Inl (IO TimeoutError)"
    by (simp add: demo_coordinator_client demo_children_get)
  show ?thesis
    using children_fetch_forbidden [OF 1, of feeding_only "[]"]
      children_fetch_forbidden [OF 2, of feeding_only "[]"]
    by (simp add: HTTP_FORBIDDEN_def)
qed

text \<open>
  C4. When the children fetch succeeds and the \<open>count\<close> of the list equals 0,
  \<open>async_update\<close> raises \<open>UpdateFailed\<close> with the no-children message; that outcome is
  neither an \<open>UpdateFailed\<close> wrapping a transport error nor a transport error itself.
\<close>

theorem zero_children_fails:
  assumes "fst (async_get session (client coord) (Some ATTR_CHILDREN) None w) = Inr children_list"
    and "py_getitem children_list ATTR_COUNT = Inr n"
    and "py_eq n (JInt 0)"
  shows "fst (async_update session SENSOR_TYPES coord dr w)
           = Inl (UpdateFailed (Message ''No children found. Please add at least one child.''))
       \<and> UpdateFailed (Message ''No children found. Please add at least one child.'')
           \<noteq> UpdateFailed (Cause e)
       \<and> UpdateFailed (Message ''No children found. Please add at least one child.'') \<noteq> IO e"
  using assms by (auto simp: async_update_def no_children_def split: prod.splits)

theorem zero_children_fails_witness:
  "fst (async_update
          (scripted_session
             (demo_server (ok_json (JObj [(''count'', JInt 0), (''results'', JList [])]))
                (error_page 404)))
          feeding_only demo_coordinator [] 0)
     = Inl (UpdateFailed (Message ''No children found. Please add at least one child.''))"
proof -
  have 1: "fst (async_get
             (scripted_session
                (demo_server (ok_json (JObj [(''count'', JInt 0), (''results'', JList [])]))
                   (error_page 404)))
             (client demo_coordinator) (Some ATTR_CHILDREN) None 0)
           = Inr (JObj [(''count'', JInt 0), (''results'', JList [])])"
    by (simp add: demo_coordinator_client demo_children_get read_json_ok)
  have 2: "py_getitem (JObj [(''count'', JInt 0), (''results'', JList [])]) ATTR_COUNT
           = Inr (JInt 0)"
    by (simp add: ATTR_COUNT_def)
  have 3: "py_eq (JInt 0) (JInt 0)" by simp
  from zero_children_fails [OF 1 2 3, of feeding_only "[]"] show ?thesis by simp
qed

text \<open>
  C10. When the children fetch fails with a \<open>ClientResponseError\<close> whose status is not
  forbidden, the handler raises nothing, \<open>children_list\<close> stays the empty dict, and
  reading its \<open>count\<close> raises \<open>KeyError\<close>: the pass returns no snapshot and raises neither
  \<open>UpdateFailed\<close> nor \<open>ConfigEntryAuthFailed\<close>. Coordinator and registry are untouched.
\<close>

theorem children_fetch_other_status:
  assumes "fst (async_get session (client coord) (Some ATTR_CHILDREN) None w)
             = Inl (IO (ClientResponseError s))"
    and "s \<noteq> HTTP_FORBIDDEN"
  shows "children_fetch (fst (async_get session (client coord) (Some ATTR_CHILDREN) None w))
           = Inr (JObj [])
       \<and> async_update session SENSOR_TYPES coord dr w =
           (Inl (KeyError (JStr ''count'')), coord, dr,
            snd (async_get session (client coord) (Some ATTR_CHILDREN) None w))
       \<and> KeyError (JStr ''count'') \<noteq> UpdateFailed arg
       \<and> KeyError (JStr ''count'') \<noteq> ConfigEntryAuthFailed"
  using assms by (auto simp: async_update_def ATTR_COUNT_def split: prod.splits)

theorem children_fetch_other_status_witness:
  "async_update (scripted_session (demo_server (error_page 500) (error_page 404)))
     feeding_only demo_coordinator [] 0
     = (Inl (KeyError (JStr ''count'')), demo_coordinator, [], 1)"
proof -
  have 1: "async_get (scripted_session (demo_server (error_page 500) (error_page 404)))
             (client demo_coordinator) (Some ATTR_CHILDREN) None 0
           = (Inl (IO (ClientResponseError 500)), 1)"
    by (simp add: demo_coordinator_client demo_children_get read_json_error_page)
  then have 2: "fst (async_get (scripted_session (demo_server (error_page 500) (error_page 404)))
             (client demo_coordinator) (Some ATTR_CHILDREN) None 0)
           = Inl (IO (ClientResponseError 500))"
    by simp
  have 3: "(500::int) \<noteq> HTTP_FORBIDDEN" by (simp add: HTTP_FORBIDDEN_def)
  from children_fetch_other_status [OF 2 3, of feeding_only "[]"] 1
  show ?thesis by simp
qed

section \<open>Connecting\<close>

text \<open>
  C5. \<open>async_connect\<close> raises \<open>AuthorizationError\<close> for every \<open>ClientResponseError\<close>,
  whatever its status, and \<open>async_setup\<close> turns it into \<open>ConfigEntryAuthFailed\<close>: a
  server error on the root listing is reported as an authorization failure.
\<close>

theorem connect_any_status_is_authorization_error:
  assumes "fst (async_get session (client coord) None None w) = Inl (IO (ClientResponseError s))"
  shows "fst (async_connect session (client coord) w) = Inl AuthorizationError
       \<and> fst (async_setup session coord w) = Inl ConfigEntryAuthFailed"
  using assms by (auto simp: async_connect_def async_setup_def split: prod.splits)

theorem connect_any_status_is_authorization_error_witness:
  "fst (async_connect (scripted_session (\<lambda>m u. error_page 500))
          (BabyBuddyClient_init ''h'' 80 ''k'') 0) = Inl AuthorizationError
   \<and> fst (async_setup (scripted_session (\<lambda>m u. error_page 500))
          \<lparr>client = BabyBuddyClient_init ''h'' 80 ''k'', config_entry_id = ''e1'',
             child_ids = []\<rparr> 0)
       = Inl ConfigEntryAuthFailed"
proof -
  have "fst (async_get (scripted_session (\<lambda>m u. error_page 500))
          (client \<lparr>client = BabyBuddyClient_init ''h'' 80 ''k'', config_entry_id = ''e1'',
                     child_ids = []\<rparr>)
          None None 0) = Inl (IO (ClientResponseError 500))"
    by (simp add: async_get_def get_url_def scripted_session_def read_json_error_page)
  from connect_any_status_is_authorization_error [OF this] show ?thesis by simp
qed

text \<open>
  C7. After a successful \<open>async_connect\<close> the endpoint map is the JSON body the server
  returned for the root listing \<open>{url}/api/\<close>. For a non-empty endpoint name that the
  map binds to a string \<open>u\<close>, \<open>async_get\<close> sends its request to \<open>u\<close> followed by
  the query suffix, if one is given, with the client's headers; nothing else is done to
  the URL.
\<close>

theorem connect_get_roundtrip:
  assumes "async_connect session c w = (Inr c', w')"
    and "endpoint \<noteq> []"
    and "py_getitem (endpoints c') endpoint = Inr (JStr u)"
  shows "(\<exists>resp. fst (session GET (url c @ ''/api/'') (headers c) None w) = Inr resp
            \<and> json_result resp = Inr (endpoints c'))
       \<and> get_url c' (Some endpoint) entry = Inr (u @ (case entry of None \<Rightarrow> [] | Some s \<Rightarrow> s))
       \<and> async_get session c' (Some endpoint) entry w2 =
           (case session GET (u @ (case entry of None \<Rightarrow> [] | Some s \<Rightarrow> s)) (headers c) None w2 of
              (r, w3) \<Rightarrow> (read_json r, w3))"
proof -
  from assms(1) obtain r where r: "session GET (url c @ ''/api/'') (headers c) None w = (r, w')"
    and v: "read_json r = Inr (endpoints c')" and c': "c' = c\<lparr>endpoints := endpoints c'\<rparr>"
    by (auto simp: async_connect_def async_get_def get_url_def split: prod.splits sum.splits)
  from v obtain resp where "r = Inr resp" "json_result resp = Inr (endpoints c')"
    by (cases r) (auto split: if_splits sum.splits)
  with r have 1: "\<exists>resp. fst (session GET (url c @ ''/api/'') (headers c) None w) = Inr resp
            \<and> json_result resp = Inr (endpoints c')" by simp
  have 2: "get_url c' (Some endpoint) entry = Inr (u @ (case entry of None \<Rightarrow> [] | Some s \<Rightarrow> s))"
    using assms(2,3) by (simp add: get_url_def endpoint_url_def split: option.splits)
  have h: "headers c' = headers c" by (subst c') simp
  show ?thesis using 1 2 by (simp add: async_get_def h)
qed

theorem connect_get_roundtrip_witness:
  "async_connect (scripted_session (demo_server (ok_json demo_children) (ok_json no_feeding)))
     (BabyBuddyClient_init ''h'' 80 ''k'') 0 = (Inr demo_client, 1)
   \<and> get_url demo_client (Some ''feeding'') (Some ''?child=1&limit=1'')
       = Inr ''h:80/api/feeding/?child=1&limit=1''
   \<and> async_get (scripted_session (demo_server (ok_json demo_children) (ok_json no_feeding)))
       demo_client (Some ''feeding'') (Some ''?child=1&limit=1'') 1 = (Inr no_feeding, 2)"
proof -
  let ?s = "scripted_session (demo_server (ok_json demo_children) (ok_json no_feeding))"
  have 1: "async_connect ?s (BabyBuddyClient_init ''h'' 80 ''k'') 0 = (Inr demo_client, 1)"
    by (simp add: async_connect_def async_get_def get_url_def scripted_session_def demo_server_def
        read_json_ok demo_client_def BabyBuddyClient_init_def str_int_80)
  have 2: "''feeding'' \<noteq> []" by simp
  have 3: "py_getitem (endpoints demo_client) ''feeding'' = Inr (JStr ''h:80/api/feeding/'')"
    by (simp add: demo_client_eq demo_listing_def)
  from connect_get_roundtrip [OF 1 2 3, of "Some ''?child=1&limit=1''" 1] 1
  show ?thesis
    by (simp add: scripted_session_def demo_server_def read_json_ok)
qed

section \<open>Writing\<close>

text \<open>
  C6. When the request of \<open>async_post\<close>, \<open>async_patch\<close> or \<open>async_delete\<close> raises a
  timeout or a client error, the handler logs it and the next statement reads
  \<open>resp.status\<close> of a \<open>resp\<close> that was never assigned: the call raises
  \<open>UnboundLocalError\<close> instead of returning.
\<close>

theorem write_request_exception_raises:
  assumes "endpoint_url c endpoint = Inr u"
    and "e \<noteq> JSONDecodeError"
  shows "(fst (session POST u (headers c) (Some data) w) = Inl e \<longrightarrow>
            fst (async_post session c endpoint data w) = Inl (UnboundLocalError ''resp''))
       \<and> (fst (session PATCH (u @ entry @ ''/'') (headers c) (Some data) w) = Inl e \<longrightarrow>
            fst (async_patch session c endpoint entry data w) = Inl (UnboundLocalError ''resp''))
       \<and> (fst (session DELETE (u @ entry @ ''/'') (headers c) None w) = Inl e \<longrightarrow>
            fst (async_delete session c endpoint entry w) = Inl (UnboundLocalError ''resp''))"
  using assms
  by (cases e) (auto simp: async_post_def async_patch_def async_delete_def split: prod.splits)

theorem write_request_exception_raises_witness:
  "fst (async_post (scripted_session (\<lambda>m u. Inl TimeoutError)) demo_client ''children''
          [(''first_name'', JStr ''A'')] 0) = Inl (UnboundLocalError ''resp'')
   \<and> fst (async_patch (scripted_session (\<lambda>m u. Inl TimeoutError)) demo_client ''children'' ''1''
          [(''first_name'', JStr ''A'')] 0) = Inl (UnboundLocalError ''resp'')
   \<and> fst (async_delete (scripted_session (\<lambda>m u. Inl TimeoutError)) demo_client ''children'' ''1''
          0) = Inl (UnboundLocalError ''resp'')"
proof -
  have 1: "endpoint_url demo_client ''children'' = Inr ''h:80/api/children/''"
    by (simp add: endpoint_url_def demo_client_eq demo_listing_def)
  have 2: "TimeoutError \<noteq> JSONDecodeError" by simp
  from write_request_exception_raises [OF 1 2,
      of "scripted_session (\<lambda>m u. Inl TimeoutError)" "[(''first_name'', JStr ''A'')]" 0 "''1''"]
  show ?thesis by (simp add: scripted_session_def)
qed

section \<open>The known child ids\<close>

lemma child_loop_ids:
  "child_loop session c S kids ids cd w = (r, ids', w') \<Longrightarrow>
   set ids \<subseteq> set ids' \<and>
   set ids' \<subseteq> set ids \<union> {i. \<exists>k \<in> set kids. py_getitem k ATTR_ID = Inr i}"
proof (induction kids arbitrary: ids cd w)
  case Nil
  then show ?case by simp
next
  case (Cons kid kids)
  show ?case
  proof (cases "py_getitem kid ATTR_ID")
    case (Inl e)
    with Cons.prems show ?thesis by simp
  next
    case (Inr i)
    let ?ids = "note_child_id i ids"
    have s: "set ids \<subseteq> set ?ids" "set ?ids \<subseteq> set ids \<union> {i}" by (auto simp: note_child_id_def)
    show ?thesis
    proof (cases i)
      case (Atom a)
      obtain r1 w1 where e: "endpoint_loop session c kid a S (setdefault_empty cd (norm_atom a)) w = (r1, w1)"
        by (cases "endpoint_loop session c kid a S (setdefault_empty cd (norm_atom a)) w")
      show ?thesis
      proof (cases r1)
        case (Inl x)
        with Cons.prems Inr Atom e have "ids' = ?ids" by auto
        with s Inr show ?thesis by auto
      next
        case (Inr cd1)
        with Cons.prems \<open>py_getitem kid ATTR_ID = Inr i\<close> Atom e
        have "child_loop session c S kids ?ids cd1 w1 = (r, ids', w')" by simp
        from Cons.IH [OF this] s \<open>py_getitem kid ATTR_ID = Inr i\<close> show ?thesis by auto
      qed
    next
      case (JList xs)
      with Cons.prems Inr have "ids' = ?ids" by auto
      with s Inr show ?thesis by auto
    next
      case (JObj kvs)
      with Cons.prems Inr have "ids' = ?ids" by auto
      with s Inr show ?thesis by auto
    qed
  qed
qed

lemma async_update_ids:
  assumes "async_update session S coord dr w = (r, coord', dr', w')"
  shows "set (child_ids coord) \<subseteq> set (child_ids coord')
       \<and> (\<forall>i \<in> set (child_ids coord') - set (child_ids coord).
            \<exists>children_list results children child.
              fst (async_get session (client coord) (Some ATTR_CHILDREN) None w) = Inr children_list
            \<and> py_getitem children_list ATTR_RESULTS = Inr results
            \<and> py_iter results = Inr children
            \<and> child \<in> set children \<and> py_getitem child ATTR_ID = Inr i)"
proof -
  obtain r0 w1 where g: "async_get session (client coord) (Some ATTR_CHILDREN) None w = (r0, w1)"
    by (cases "async_get session (client coord) (Some ATTR_CHILDREN) None w")
  show ?thesis
  proof (cases "children_fetch r0")
    case (Inl e)
    with assms g show ?thesis by (auto simp: async_update_def)
  next
    case (Inr cl)
    note cl = this
    show ?thesis
    proof (cases "\<exists>n results kids. py_getitem cl ATTR_COUNT = Inr n \<and> \<not> py_eq n (JInt 0)
        \<and> py_getitem cl ATTR_RESULTS = Inr results \<and> py_iter results = Inr kids")
      case False
      with assms g cl have "coord' = coord"
        by (auto simp: async_update_def split: sum.splits if_splits)
      then show ?thesis by simp
    next
      case True
      then obtain n results kids where n: "py_getitem cl ATTR_COUNT = Inr n" "\<not> py_eq n (JInt 0)"
        and res: "py_getitem cl ATTR_RESULTS = Inr results" and kids: "py_iter results = Inr kids"
        by blast
      from n cl have "r0 = Inr cl"
        by (cases r0 rule: children_fetch.cases) (auto simp: ATTR_COUNT_def split: if_splits)
      with g have f: "fst (async_get session (client coord) (Some ATTR_CHILDREN) None w) = Inr cl" by simp
      obtain r2 ids w2 where l: "child_loop session (client coord) S kids (child_ids coord) Map.empty w1 = (r2, ids, w2)"
        by (cases "child_loop session (client coord) S kids (child_ids coord) Map.empty w1") auto
      with assms g cl n res kids have "child_ids coord' = ids"
        by (auto simp: async_update_def split: sum.splits prod.splits)
      with child_loop_ids [OF l] f res kids show ?thesis by auto
    qed
  qed
qed

lemma refresh_passes_ids:
  "set (child_ids coord) \<subseteq> set (child_ids (fst (refresh_passes session S n coord dr w)))"
proof (induction n arbitrary: coord dr w)
  case 0
  then show ?case by simp
next
  case (Suc n)
  obtain r coord' dr' w' where u: "async_update session S coord dr w = (r, coord', dr', w')"
    by (cases "async_update session S coord dr w") auto
  from async_update_ids [OF u] have "set (child_ids coord) \<subseteq> set (child_ids coord')" by simp
  also have "\<dots> \<subseteq> set (child_ids (fst (refresh_passes session S n coord' dr' w')))" by (rule Suc.IH)
  finally show ?case using u by simp
qed

lemma refresh_passes_add:
  "refresh_passes session S (m + n) coord dr w =
     (case refresh_passes session S m coord dr w of (coord', dr', w') \<Rightarrow> refresh_passes session S n coord' dr' w')"
  by (induction m arbitrary: coord dr w) (auto split: prod.splits)

text \<open>
  C8. Whatever a refresh pass returns or raises, every id in \<open>child_ids\<close> before the
  pass is in it afterwards, and an id that the pass added is the \<open>id\<close> of a child in
  the children list the pass fetched. So over a sequence of passes the set of known ids
  never shrinks: after \<open>m\<close> passes it is contained in the set after \<open>m + n\<close> passes.
\<close>

theorem child_ids_only_grow:
  assumes "async_update session SENSOR_TYPES coord dr w = (r, coord', dr', w')"
  shows "set (child_ids coord) \<subseteq> set (child_ids coord')
       \<and> (\<forall>i \<in> set (child_ids coord') - set (child_ids coord).
            \<exists>children_list results children child.
              fst (async_get session (client coord) (Some ATTR_CHILDREN) None w) = Inr children_list
            \<and> py_getitem children_list ATTR_RESULTS = Inr results
            \<and> py_iter results = Inr children
            \<and> child \<in> set children \<and> py_getitem child ATTR_ID = Inr i)
       \<and> set (child_ids (fst (refresh_passes session SENSOR_TYPES m coord dr w)))
           \<subseteq> set (child_ids (fst (refresh_passes session SENSOR_TYPES (m + n) coord dr w)))"
proof -
  obtain coord1 dr1 w1 where m: "refresh_passes session SENSOR_TYPES m coord dr w = (coord1, dr1, w1)"
    by (cases "refresh_passes session SENSOR_TYPES m coord dr w") auto
  have "set (child_ids coord1)
          \<subseteq> set (child_ids (fst (refresh_passes session SENSOR_TYPES n coord1 dr1 w1)))"
    by (rule refresh_passes_ids)
  with m have "set (child_ids (fst (refresh_passes session SENSOR_TYPES m coord dr w)))
           \<subseteq> set (child_ids (fst (refresh_passes session SENSOR_TYPES (m + n) coord dr w)))"
    by (simp add: refresh_passes_add)
  with async_update_ids [OF assms] show ?thesis by blast
qed

theorem child_ids_only_grow_witness:
  "async_update (scripted_session (demo_server (ok_json demo_children) (ok_json no_feeding)))
     feeding_only (demo_coordinator\<lparr>child_ids := [JInt 7]\<rparr>) [] 0 =
   (Inr (JList [demo_child], [AInt 1 \<mapsto> [''feeding'' \<mapsto> JObj []]]),
    demo_coordinator\<lparr>child_ids := [JInt 7, JInt 1]\<rparr>, [], 2)
   \<and> set [JInt 7] \<subseteq> set [JInt 7, JInt 1]
   \<and> refresh_passes (scripted_session (demo_server (ok_json demo_children) (ok_json no_feeding)))
       feeding_only 2 (demo_coordinator\<lparr>child_ids := [JInt 7]\<rparr>) [] 0 =
     (demo_coordinator\<lparr>child_ids := [JInt 7, JInt 1]\<rparr>, [], 4)"
proof -
  have n1: "note_child_id (JInt 1) [JInt 7] = [JInt 7, JInt 1]"
    by (simp add: note_child_id_def py_in_def)
  have n2: "note_child_id (JInt 1) [JInt 7, JInt 1] = [JInt 7, JInt 1]"
    by (simp add: note_child_id_def py_in_def)
  have 1: "async_update (scripted_session (demo_server (ok_json demo_children) (ok_json no_feeding)))
     feeding_only (demo_coordinator\<lparr>child_ids := [JInt 7]\<rparr>) [] 0 =
   (Inr (JList [demo_child], [AInt 1 \<mapsto> [''feeding'' \<mapsto> JObj []]]),
    demo_coordinator\<lparr>child_ids := [JInt 7, JInt 1]\<rparr>, [], 2)"
    by (simp add: demo_pass_ids n1)
  have 2: "refresh_passes (scripted_session (demo_server (ok_json demo_children) (ok_json no_feeding)))
       feeding_only 2 (demo_coordinator\<lparr>child_ids := [JInt 7]\<rparr>) [] 0 =
     (demo_coordinator\<lparr>child_ids := [JInt 7, JInt 1]\<rparr>, [], 4)"
    by (simp add: numeral_2_eq_2 demo_pass_ids n1 n2)
  from child_ids_only_grow [OF 1, of 0 2] 1 2 show ?thesis by simp
qed

section \<open>Device reconciliation\<close>

lemma remove_loop_filter:
  "\<forall>d\<in>set ds. child_identifier d \<noteq> None \<Longrightarrow>
   remove_loop ids ds dr =
     (Inr (), filter (\<lambda>d. device_id d \<notin> device_id `
                 {x \<in> set ds. \<exists>i. child_identifier x = Some i \<and> \<not> py_in i ids}) dr)"
proof (induction ds arbitrary: dr)
  case Nil
  then show ?case by simp
next
  case (Cons d ds)
  then obtain i where i: "child_identifier d = Some i" by auto
  from Cons.prems have p: "\<forall>d\<in>set ds. child_identifier d \<noteq> None" by simp
  show ?case
    using i by (auto simp: Cons.IH [OF p] async_remove_device_def intro!: filter_cong)
qed

lemma child_identifier_None: "child_identifier d = None \<longleftrightarrow> identifiers d = []"
  by (simp add: child_identifier_def split: list.splits)

lemma async_remove_deleted_childs_filter:
  assumes "distinct (map device_id dr)"
    and "\<forall>d\<in>set dr. config_entry_id coord \<in> set (config_entries d) \<longrightarrow> identifiers d \<noteq> []"
  shows "async_remove_deleted_childs coord dr =
           (Inr (), filter (\<lambda>d. \<not> (config_entry_id coord \<in> set (config_entries d)
                                   \<and> (\<exists>i. child_identifier d = Some i
                                          \<and> \<not> py_in i (child_ids coord)))) dr)"
proof -
  let ?ds = "async_entries_for_config_entry dr (config_entry_id coord)"
  let ?gone = "{x \<in> set ?ds. \<exists>i. child_identifier x = Some i \<and> \<not> py_in i (child_ids coord)}"
  have ne: "\<forall>d\<in>set ?ds. child_identifier d \<noteq> None"
    using assms(2) by (simp add: async_entries_for_config_entry_def child_identifier_None)
  have "filter (\<lambda>d. device_id d \<notin> device_id ` ?gone) dr
      = filter (\<lambda>d. \<not> (config_entry_id coord \<in> set (config_entries d)
                                   \<and> (\<exists>i. child_identifier d = Some i
                                          \<and> \<not> py_in i (child_ids coord)))) dr"
  proof (rule filter_cong [OF refl])
    fix d assume d: "d \<in> set dr"
    have "device_id d \<in> device_id ` ?gone
      \<longleftrightarrow> (config_entry_id coord \<in> set (config_entries d)
             \<and> (\<exists>i. child_identifier d = Some i \<and> \<not> py_in i (child_ids coord)))"
      (is "?l \<longleftrightarrow> ?r")
    proof
      assume ?l
      then obtain x where x: "x \<in> set dr" "config_entry_id coord \<in> set (config_entries x)"
        "\<exists>i. child_identifier x = Some i \<and> \<not> py_in i (child_ids coord)"
        "device_id x = device_id d"
        by (auto simp: async_entries_for_config_entry_def)
      with assms(1) d have "x = d" by (meson distinct_map inj_on_def)
      with x show ?r by simp
    next
      assume ?r with d show ?l by (auto simp: async_entries_for_config_entry_def)
    qed
    then show "(device_id d \<notin> device_id ` ?gone)
       = (\<not> (config_entry_id coord \<in> set (config_entries d)
             \<and> (\<exists>i. child_identifier d = Some i \<and> \<not> py_in i (child_ids coord))))" by simp
  qed
  then show ?thesis
    by (simp add: async_remove_deleted_childs_def remove_loop_filter [OF ne])
qed

lemma async_remove_deleted_childs_returns:
  assumes "\<forall>d\<in>set dr. config_entry_id coord \<in> set (config_entries d) \<longrightarrow> identifiers d \<noteq> []"
  shows "fst (async_remove_deleted_childs coord dr) = Inr ()"
proof -
  have "\<forall>d\<in>set (async_entries_for_config_entry dr (config_entry_id coord)).
          child_identifier d \<noteq> None"
    using assms by (simp add: async_entries_for_config_entry_def child_identifier_None)
  from remove_loop_filter [OF this] show ?thesis by (simp add: async_remove_deleted_childs_def)
qed

lemma async_update_reconciles:
  assumes "async_update session SENSOR_TYPES coord0 dr w = (Inr (results, child_data), coord, dr', w')"
  shows "async_remove_deleted_childs coord dr = (Inr (), dr')
       \<and> config_entry_id coord = config_entry_id coord0"
  using assms
  by (auto simp: async_update_def split: prod.splits sum.splits if_splits)

text \<open>
  C9. In a registry whose devices have distinct ids, and where every device of this
  config entry has an identifier, \<open>async_remove_deleted_childs\<close> returns normally and
  leaves exactly the devices that belong to another config entry or whose child
  identifier is in \<open>child_ids\<close>: it removes the devices of this entry whose identifier is
  not known, and no other. The snapshot plays no part: the registry a successful pass
  leaves is this filter of the registry it found, whatever \<open>child_data\<close> holds.
\<close>

theorem reconciliation_removes_exactly_unknown:
  assumes "distinct (map device_id dr)"
    and "\<forall>d\<in>set dr. config_entry_id coord \<in> set (config_entries d) \<longrightarrow> identifiers d \<noteq> []"
  shows "async_remove_deleted_childs coord dr =
           (Inr (), filter (\<lambda>d. \<not> (config_entry_id coord \<in> set (config_entries d)
                                   \<and> (\<exists>i. child_identifier d = Some i
                                          \<and> \<not> py_in i (child_ids coord)))) dr)
       \<and> (async_update session SENSOR_TYPES coord0 dr w = (Inr (results, child_data), coord, dr', w')
            \<longrightarrow> dr' = filter (\<lambda>d. \<not> (config_entry_id coord \<in> set (config_entries d)
                                   \<and> (\<exists>i. child_identifier d = Some i
                                          \<and> \<not> py_in i (child_ids coord)))) dr)"
proof -
  note f = async_remove_deleted_childs_filter [OF assms]
  show ?thesis
  proof (intro conjI impI)
    show "async_remove_deleted_childs coord dr =
           (Inr (), filter (\<lambda>d. \<not> (config_entry_id coord \<in> set (config_entries d)
                                   \<and> (\<exists>i. child_identifier d = Some i
                                          \<and> \<not> py_in i (child_ids coord)))) dr)"
      by (rule f)
  next
    assume "async_update session SENSOR_TYPES coord0 dr w = (Inr (results, child_data), coord, dr', w')"
    from async_update_reconciles [OF this, THEN conjunct1] f
    show "dr' = filter (\<lambda>d. \<not> (config_entry_id coord \<in> set (config_entries d)
                                   \<and> (\<exists>i. child_identifier d = Some i
                                          \<and> \<not> py_in i (child_ids coord)))) dr"
      by simp
  qed
qed

theorem reconciliation_removes_exactly_unknown_witness:
  "async_remove_deleted_childs (demo_coordinator\<lparr>child_ids := [JInt 1]\<rparr>) demo_devices =
     (Inr (),
      [\<lparr>device_id = ''d1'', config_entries = [''e1''], identifiers = [(''babybuddy'', JInt 1)]\<rparr>,
       \<lparr>device_id = ''d3'', config_entries = [''e2''], identifiers = [(''other'', JInt 2)]\<rparr>])
   \<and> async_update (scripted_session (demo_server (ok_json demo_children) (ok_json no_feeding)))
       feeding_only demo_coordinator demo_devices 0 =
     (Inr (JList [demo_child], [AInt 1 \<mapsto> [''feeding'' \<mapsto> JObj []]]),
      demo_coordinator\<lparr>child_ids := [JInt 1]\<rparr>,
      [\<lparr>device_id = ''d1'', config_entries = [''e1''], identifiers = [(''babybuddy'', JInt 1)]\<rparr>,
       \<lparr>device_id = ''d3'', config_entries = [''e2''], identifiers = [(''other'', JInt 2)]\<rparr>],
      2)"
proof -
  have 1: "distinct (map device_id demo_devices)" by (simp add: demo_devices_def)
  have 2: "\<forall>d\<in>set demo_devices.
             config_entry_id (demo_coordinator\<lparr>child_ids := [JInt 1]\<rparr>) \<in> set (config_entries d)
             \<longrightarrow> identifiers d \<noteq> []"
    by (simp add: demo_devices_def)
  have "async_remove_deleted_childs (demo_coordinator\<lparr>child_ids := [JInt 1]\<rparr>) demo_devices =
          (Inr (), filter (\<lambda>d. \<not> (config_entry_id (demo_coordinator\<lparr>child_ids := [JInt 1]\<rparr>)
                                      \<in> set (config_entries d)
                                   \<and> (\<exists>i. child_identifier d = Some i
                                          \<and> \<not> py_in i
                                               (child_ids (demo_coordinator\<lparr>child_ids := [JInt 1]\<rparr>)))))
                     demo_devices)"
    using reconciliation_removes_exactly_unknown [OF 1 2] by (rule conjunct1)
  then have "async_remove_deleted_childs (demo_coordinator\<lparr>child_ids := [JInt 1]\<rparr>) demo_devices =
     (Inr (),
      [\<lparr>device_id = ''d1'', config_entries = [''e1''], identifiers = [(''babybuddy'', JInt 1)]\<rparr>,
       \<lparr>device_id = ''d3'', config_entries = [''e2''], identifiers = [(''other'', JInt 2)]\<rparr>])"
    by (simp add: demo_devices_def demo_coordinator_def py_in_def child_identifier_def)
  then show ?thesis using demo_pass by simp
qed

section \<open>The snapshot\<close>

lemma endpoint_loop_frame:
  "endpoint_loop session c child a eps cd w = (Inr cd', w') \<Longrightarrow> k \<noteq> norm_atom a \<Longrightarrow> cd' k = cd k"
proof (induction eps arbitrary: cd w)
  case Nil
  then show ?case by simp
next
  case (Cons ep eps)
  from Cons.prems show ?case
    by (auto split: prod.splits sum.splits option.splits dest!: Cons.IH)
qed

lemma endpoint_loop_dom:
  "endpoint_loop session c child a eps cd w = (Inr cd', w') \<Longrightarrow> dom cd' = dom cd"
proof (induction eps arbitrary: cd w)
  case Nil
  then show ?case by simp
next
  case (Cons ep eps)
  obtain r1 w2 where g: "async_get session c (Some (key ep)) (Some (child_query a)) w = (r1, w2)"
    by (cases "async_get session c (Some (key ep)) (Some (child_query a)) w")
  show ?case
  proof (cases r1)
    case (Inl e)
    with Cons.prems g have "endpoint_loop session c child a eps cd w2 = (Inr cd', w')"
      by (simp split: option.splits)
    then show ?thesis by (rule Cons.IH)
  next
    case (Inr ed)
    with Cons.prems g obtain v r where r: "cd (norm_atom a) = Some r"
      and l: "endpoint_loop session c child a eps (cd(norm_atom a \<mapsto> r(key ep \<mapsto> v))) w2
                = (Inr cd', w')"
      by (auto split: sum.splits option.splits)
    from l have "dom cd' = dom (cd(norm_atom a \<mapsto> r(key ep \<mapsto> v)))" by (rule Cons.IH)
    also have "\<dots> = dom cd" using r by auto
    finally show ?thesis .
  qed
qed

lemma latest_list: "latest (JList rs) = Inr (case rs of [] \<Rightarrow> JObj [] | x # _ \<Rightarrow> x)"
  by (cases rs) (simp_all add: latest_def)

lemma dom_setdefault_empty: "dom (setdefault_empty cd k) = insert k (dom cd)"
  by (auto simp: setdefault_empty_def split: option.splits)

lemma setdefault_empty_other: "k' \<noteq> k \<Longrightarrow> setdefault_empty cd k k' = cd k'"
  by (simp add: setdefault_empty_def split: option.splits)

subsection \<open>The fetches of a pass that returns\<close>

text \<open>When the loops return, the list of fetches goes on with them: a pass that returns
  a snapshot has made one fetch for every child of the list and every endpoint of
  \<open>SENSOR_TYPES\<close>, in this order, and no other.\<close>

lemma endpoint_fetches_failed:
  assumes "endpoint_loop session c child a (ep # eps) cd w = (Inr cd', w')"
    and "async_get session c (Some (key ep)) (Some (child_query a)) w = (Inl e, w2)"
  shows "endpoint_loop session c child a eps cd w2 = (Inr cd', w')
       \<and> endpoint_fetches session c child a (ep # eps) cd w
           = (key ep, a, w) # endpoint_fetches session c child a eps cd w2"
  using assms by (simp split: option.splits)

lemma endpoint_fetches_fetched:
  assumes "endpoint_loop session c child a (ep # eps) cd w = (Inr cd', w')"
    and "async_get session c (Some (key ep)) (Some (child_query a)) w = (Inr ed, w2)"
  shows "\<exists>data v r. py_getitem ed ATTR_RESULTS = Inr data \<and> latest data = Inr v
           \<and> cd (norm_atom a) = Some r
           \<and> endpoint_loop session c child a eps (cd(norm_atom a \<mapsto> r(key ep \<mapsto> v))) w2
                = (Inr cd', w')
           \<and> endpoint_fetches session c child a (ep # eps) cd w
                = (key ep, a, w)
                  # endpoint_fetches session c child a eps (cd(norm_atom a \<mapsto> r(key ep \<mapsto> v))) w2"
proof (cases "py_getitem ed ATTR_RESULTS")
  case (Inl e)
  with assms show ?thesis by simp
next
  case data: (Inr data)
  show ?thesis
  proof (cases "latest data")
    case (Inl e)
    with assms data show ?thesis by simp
  next
    case v: (Inr v)
    show ?thesis
    proof (cases "cd (norm_atom a)")
      case None
      with assms data v show ?thesis by simp
    next
      case (Some r)
      with assms data v show ?thesis by simp
    qed
  qed
qed

lemma child_fetches_step:
  assumes "child_loop session c S (kid # kids) ids cd w = (Inr cd', ids', w')"
  shows "\<exists>a cd1 w2. py_getitem kid ATTR_ID = Inr (Atom a)
           \<and> endpoint_loop session c kid a S (setdefault_empty cd (norm_atom a)) w = (Inr cd1, w2)
           \<and> child_loop session c S kids (note_child_id (Atom a) ids) cd1 w2 = (Inr cd', ids', w')
           \<and> child_fetches session c S (kid # kids) cd w
                = endpoint_fetches session c kid a S (setdefault_empty cd (norm_atom a)) w
                  @ child_fetches session c S kids cd1 w2"
  using assms by (simp split: sum.splits json.splits prod.splits)

lemma child_loop_dom:
  "child_loop session c S kids ids cd w = (Inr cd', ids', w') \<Longrightarrow>
   dom cd' = dom cd \<union> {norm_atom a |a. \<exists>kid\<in>set kids. py_getitem kid ATTR_ID = Inr (Atom a)}"
proof (induction kids arbitrary: ids cd w)
  case Nil
  then show ?case by simp
next
  case (Cons kid kids)
  from child_fetches_step [OF Cons.prems] obtain a cd1 w2 where
    a: "py_getitem kid ATTR_ID = Inr (Atom a)"
    and e: "endpoint_loop session c kid a S (setdefault_empty cd (norm_atom a)) w = (Inr cd1, w2)"
    and l: "child_loop session c S kids (note_child_id (Atom a) ids) cd1 w2 = (Inr cd', ids', w')"
    by (elim exE conjE)
  have d1: "dom cd1 = insert (norm_atom a) (dom cd)"
    using endpoint_loop_dom [OF e] by (simp add: dom_setdefault_empty)
  have d: "dom cd' = dom cd1 \<union> {norm_atom a |a. \<exists>kid\<in>set kids. py_getitem kid ATTR_ID = Inr (Atom a)}"
    using l by (rule Cons.IH)
  have k: "{norm_atom b |b. \<exists>x\<in>set (kid # kids). py_getitem x ATTR_ID = Inr (Atom b)}
      = insert (norm_atom a) {norm_atom b |b. \<exists>x\<in>set kids. py_getitem x ATTR_ID = Inr (Atom b)}"
    using a by auto
  show ?case unfolding d d1 k by blast
qed

lemma pass_fetches_returned:
  assumes "async_update session SENSOR_TYPES coord dr w = (Inr (results, child_data), coord', dr', w')"
  shows "\<exists>children_list children ids w1 w2.
           async_get session (client coord) (Some ATTR_CHILDREN) None w = (Inr children_list, w1)
         \<and> py_getitem children_list ATTR_RESULTS = Inr results
         \<and> py_iter results = Inr children
         \<and> child_loop session (client coord) SENSOR_TYPES children (child_ids coord) Map.empty w1
             = (Inr child_data, ids, w2)
         \<and> pass_fetches session SENSOR_TYPES coord w
             = child_fetches session (client coord) SENSOR_TYPES children Map.empty w1"
proof -
  obtain r0 w1 where g: "async_get session (client coord) (Some ATTR_CHILDREN) None w = (r0, w1)"
    by (cases "async_get session (client coord) (Some ATTR_CHILDREN) None w")
  from assms g obtain children_list where cf: "children_fetch r0 = Inr children_list"
    by (auto simp: async_update_def split: sum.splits)
  from assms g cf obtain n where n: "py_getitem children_list ATTR_COUNT = Inr n"
    by (auto simp: async_update_def split: sum.splits)
  from assms g cf n have z: "\<not> py_eq n (JInt 0)"
    by (auto simp: async_update_def split: if_splits)
  from assms g cf n z obtain results0 where rs: "py_getitem children_list ATTR_RESULTS = Inr results0"
    by (auto simp: async_update_def split: sum.splits)
  from assms g cf n z rs obtain children where it: "py_iter results0 = Inr children"
    by (auto simp: async_update_def split: sum.splits)
  from assms g cf n z rs it obtain ids w2 where
    l: "child_loop session (client coord) SENSOR_TYPES children (child_ids coord) Map.empty w1
             = (Inr child_data, ids, w2)" and eq: "results0 = results"
    by (auto simp: async_update_def split: sum.splits prod.splits)
  have r0: "r0 = Inr children_list"
  proof (cases r0)
    case (Inr v)
    with cf show ?thesis by simp
  next
    case (Inl e)
    with cf have "children_list = JObj []"
      by (cases r0 rule: children_fetch.cases) (auto split: if_splits)
    with n show ?thesis by (simp add: ATTR_COUNT_def)
  qed
  have t: "pass_fetches session SENSOR_TYPES coord w
             = child_fetches session (client coord) SENSOR_TYPES children Map.empty w1"
    by (simp add: pass_fetches_def g cf n z rs it)
  from g r0 rs eq it l t show ?thesis by blast
qed

lemma endpoint_fetches_pairs:
  "endpoint_loop session c child a eps cd w = (Inr cd', w') \<Longrightarrow>
   map (\<lambda>(k, a2, w2). (k, a2)) (endpoint_fetches session c child a eps cd w)
     = map (\<lambda>ep. (key ep, a)) eps"
proof (induction eps arbitrary: cd w)
  case Nil
  then show ?case by simp
next
  case (Cons ep eps)
  obtain r1 w2 where g: "async_get session c (Some (key ep)) (Some (child_query a)) w = (r1, w2)"
    by (cases "async_get session c (Some (key ep)) (Some (child_query a)) w")
  show ?case
  proof (cases r1)
    case (Inl e)
    with g have g': "async_get session c (Some (key ep)) (Some (child_query a)) w = (Inl e, w2)"
      by simp
    note s = endpoint_fetches_failed [OF Cons.prems g']
    from s have "endpoint_loop session c child a eps cd w2 = (Inr cd', w')" by (rule conjunct1)
    from Cons.IH [OF this] s show ?thesis by simp
  next
    case (Inr ed)
    with g have g': "async_get session c (Some (key ep)) (Some (child_query a)) w = (Inr ed, w2)"
      by simp
    from endpoint_fetches_fetched [OF Cons.prems g'] obtain v r where
      l: "endpoint_loop session c child a eps (cd(norm_atom a \<mapsto> r(key ep \<mapsto> v))) w2
                = (Inr cd', w')"
      and t: "endpoint_fetches session c child a (ep # eps) cd w
                = (key ep, a, w)
                  # endpoint_fetches session c child a eps (cd(norm_atom a \<mapsto> r(key ep \<mapsto> v))) w2"
      by (elim exE conjE)
    show ?thesis unfolding t by (simp add: Cons.IH [OF l])
  qed
qed

lemma child_fetches_pairs:
  "child_loop session c S kids ids cd w = (Inr cd', ids', w') \<Longrightarrow>
   map (\<lambda>(k, a2, w2). (k, a2)) (child_fetches session c S kids cd w)
     = concat (map (\<lambda>kid. case py_getitem kid ATTR_ID of
                            Inr (Atom a) \<Rightarrow> map (\<lambda>ep. (key ep, a)) S | _ \<Rightarrow> []) kids)"
proof (induction kids arbitrary: ids cd w)
  case Nil
  then show ?case by simp
next
  case (Cons kid kids)
  from child_fetches_step [OF Cons.prems] obtain a cd1 w2 where
    a: "py_getitem kid ATTR_ID = Inr (Atom a)"
    and e: "endpoint_loop session c kid a S (setdefault_empty cd (norm_atom a)) w = (Inr cd1, w2)"
    and l: "child_loop session c S kids (note_child_id (Atom a) ids) cd1 w2 = (Inr cd', ids', w')"
    and t: "child_fetches session c S (kid # kids) cd w
                = endpoint_fetches session c kid a S (setdefault_empty cd (norm_atom a)) w
                  @ child_fetches session c S kids cd1 w2"
    by (elim exE conjE)
  show ?case unfolding t by (simp add: Cons.IH [OF l] endpoint_fetches_pairs [OF e] a)
qed

lemma pass_fetches_pairs:
  assumes "async_update session SENSOR_TYPES coord dr w = (Inr (results, child_data), coord', dr', w')"
    and "py_iter results = Inr children"
  shows "map (\<lambda>(k, a, w2). (k, a)) (pass_fetches session SENSOR_TYPES coord w)
     = concat (map (\<lambda>child. case py_getitem child ATTR_ID of
                            Inr (Atom a) \<Rightarrow> map (\<lambda>endpoint. (key endpoint, a)) SENSOR_TYPES
                          | _ \<Rightarrow> []) children)"
proof -
  from pass_fetches_returned [OF assms(1)] obtain kids ids w1 w2 where
    it: "py_iter results = Inr kids"
    and l: "child_loop session (client coord) SENSOR_TYPES kids (child_ids coord) Map.empty w1
             = (Inr child_data, ids, w2)"
    and t: "pass_fetches session SENSOR_TYPES coord w
             = child_fetches session (client coord) SENSOR_TYPES kids Map.empty w1"
    by (elim exE conjE)
  from it assms(2) have "kids = children" by simp
  with child_fetches_pairs [OF l] t show ?thesis by simp
qed

subsection \<open>A failed fetch leaves its slot empty\<close>

lemma endpoint_loop_absent:
  assumes "endpoint_loop session c child a eps cd w1 = (Inr cd', w')"
    and "\<forall>(k', a2, w2)\<in>set (endpoint_fetches session c child a eps cd w1).
           k' = k \<and> norm_atom a2 = norm_atom a0 \<longrightarrow>
           (\<exists>e. fst (async_get session c (Some k) (Some (child_query a2)) w2) = Inl e)"
    and "norm_atom a = norm_atom a0"
    and "\<forall>r. cd (norm_atom a0) = Some r \<longrightarrow> r k = None"
  shows "\<forall>r. cd' (norm_atom a0) = Some r \<longrightarrow> r k = None"
  using assms(1,2,4)
proof (induction eps arbitrary: cd w1)
  case Nil
  then show ?case by simp
next
  case (Cons ep eps)
  obtain r1 w2 where g: "async_get session c (Some (key ep)) (Some (child_query a)) w1 = (r1, w2)"
    by (cases "async_get session c (Some (key ep)) (Some (child_query a)) w1")
  show ?case
  proof (cases r1)
    case (Inl e)
    with g have g': "async_get session c (Some (key ep)) (Some (child_query a)) w1 = (Inl e, w2)"
      by simp
    note s = endpoint_fetches_failed [OF Cons.prems(1) g']
    from s have l: "endpoint_loop session c child a eps cd w2 = (Inr cd', w')" by (rule conjunct1)
    from s Cons.prems(2)
    have f: "\<forall>(k', a2, w2)\<in>set (endpoint_fetches session c child a eps cd w2).
           k' = k \<and> norm_atom a2 = norm_atom a0 \<longrightarrow>
           (\<exists>e. fst (async_get session c (Some k) (Some (child_query a2)) w2) = Inl e)"
      by simp
    from l f Cons.prems(3) show ?thesis by (rule Cons.IH)
  next
    case (Inr ed)
    with g have g': "async_get session c (Some (key ep)) (Some (child_query a)) w1 = (Inr ed, w2)"
      by simp
    from endpoint_fetches_fetched [OF Cons.prems(1) g'] obtain v r where
      r: "cd (norm_atom a) = Some r"
      and l: "endpoint_loop session c child a eps (cd(norm_atom a \<mapsto> r(key ep \<mapsto> v))) w2
                = (Inr cd', w')"
      and t: "endpoint_fetches session c child a (ep # eps) cd w1
                = (key ep, a, w1)
                  # endpoint_fetches session c child a eps (cd(norm_atom a \<mapsto> r(key ep \<mapsto> v))) w2"
      by (elim exE conjE)
    from t Cons.prems(2)
    have h: "key ep = k \<and> norm_atom a = norm_atom a0 \<longrightarrow>
               (\<exists>e. fst (async_get session c (Some k) (Some (child_query a)) w1) = Inl e)"
      and f: "\<forall>(k', a2, w2)\<in>set (endpoint_fetches session c child a eps
                                      (cd(norm_atom a \<mapsto> r(key ep \<mapsto> v))) w2).
           k' = k \<and> norm_atom a2 = norm_atom a0 \<longrightarrow>
           (\<exists>e. fst (async_get session c (Some k) (Some (child_query a2)) w2) = Inl e)"
      by simp_all
    have ne: "key ep \<noteq> k"
    proof
      assume "key ep = k"
      with g' have "fst (async_get session c (Some k) (Some (child_query a)) w1) = Inr ed"
        by simp
      moreover from h \<open>key ep = k\<close> assms(3)
      have "\<exists>e. fst (async_get session c (Some k) (Some (child_query a)) w1) = Inl e" by simp
      ultimately show False by auto
    qed
    from r Cons.prems(3) ne assms(3)
    have "\<forall>r'. (cd(norm_atom a \<mapsto> r(key ep \<mapsto> v))) (norm_atom a0) = Some r' \<longrightarrow> r' k = None"
      by auto
    from l f this show ?thesis by (rule Cons.IH)
  qed
qed

lemma child_loop_absent:
  assumes "child_loop session c S kids ids cd w1 = (Inr cd', ids', w')"
    and "\<forall>(k', a2, w2)\<in>set (child_fetches session c S kids cd w1).
           k' = k \<and> norm_atom a2 = norm_atom a \<longrightarrow>
           (\<exists>e. fst (async_get session c (Some k) (Some (child_query a2)) w2) = Inl e)"
    and "\<forall>r. cd (norm_atom a) = Some r \<longrightarrow> r k = None"
  shows "\<forall>r. cd' (norm_atom a) = Some r \<longrightarrow> r k = None"
  using assms
proof (induction kids arbitrary: ids cd w1)
  case Nil
  then show ?case by simp
next
  case (Cons kid kids)
  from child_fetches_step [OF Cons.prems(1)] obtain a2 cd1 w2 where
    a2: "py_getitem kid ATTR_ID = Inr (Atom a2)"
    and e: "endpoint_loop session c kid a2 S (setdefault_empty cd (norm_atom a2)) w1 = (Inr cd1, w2)"
    and l: "child_loop session c S kids (note_child_id (Atom a2) ids) cd1 w2 = (Inr cd', ids', w')"
    and t: "child_fetches session c S (kid # kids) cd w1
                = endpoint_fetches session c kid a2 S (setdefault_empty cd (norm_atom a2)) w1
                  @ child_fetches session c S kids cd1 w2"
    by (elim exE conjE)
  from t Cons.prems(2)
  have here: "\<forall>(k', a3, w3)\<in>set (endpoint_fetches session c kid a2 S
                                      (setdefault_empty cd (norm_atom a2)) w1).
           k' = k \<and> norm_atom a3 = norm_atom a \<longrightarrow>
           (\<exists>e. fst (async_get session c (Some k) (Some (child_query a3)) w3) = Inl e)"
    and rest: "\<forall>(k', a3, w3)\<in>set (child_fetches session c S kids cd1 w2).
           k' = k \<and> norm_atom a3 = norm_atom a \<longrightarrow>
           (\<exists>e. fst (async_get session c (Some k) (Some (child_query a3)) w3) = Inl e)"
    by simp_all
  have s: "\<forall>r. setdefault_empty cd (norm_atom a2) (norm_atom a) = Some r \<longrightarrow> r k = None"
    using Cons.prems(3) by (auto simp: setdefault_empty_def split: option.splits if_splits)
  have "\<forall>r. cd1 (norm_atom a) = Some r \<longrightarrow> r k = None"
  proof (cases "norm_atom a2 = norm_atom a")
    case True
    from e here True s show ?thesis by (rule endpoint_loop_absent)
  next
    case False
    then have "cd1 (norm_atom a) = setdefault_empty cd (norm_atom a2) (norm_atom a)"
      using endpoint_loop_frame [OF e] by metis
    with s show ?thesis by simp
  qed
  from l rest this show ?case by (rule Cons.IH)
qed

text \<open>
  C2. Take a pass that returns a snapshot, a child id \<open>a\<close> and an endpoint key \<open>k\<close>.
  If every fetch of \<open>k\<close> that the pass makes for a child whose id equals \<open>a\<close> (as Python
  compares ids) fails, then the record of \<open>a\<close> in the snapshot, if there is one, has no
  entry for \<open>k\<close>: no value of an earlier pass and no error value. Only the fetches of
  this pass count, each in the world in which the pass makes it; what the server
  answers to any other request, before or after, plays no part. The pass starts from
  the empty mapping and reads nothing of an earlier snapshot, so this holds for every
  coordinator and world, also after passes that had filled the slot.
\<close>

theorem failed_fetch_slot_absent:
  assumes "async_update session SENSOR_TYPES coord dr w = (Inr (results, child_data), coord', dr', w')"
    and "\<forall>(k', a2, w2)\<in>set (pass_fetches session SENSOR_TYPES coord w).
           k' = k \<and> norm_atom a2 = norm_atom a \<longrightarrow>
           (\<exists>e. fst (async_get session (client coord) (Some k) (Some (child_query a2)) w2) = Inl e)"
  shows "\<forall>r. child_data (norm_atom a) = Some r \<longrightarrow> r k = None"
proof -
  from pass_fetches_returned [OF assms(1)] obtain children ids w1 w2 where
    l: "child_loop session (client coord) SENSOR_TYPES children (child_ids coord) Map.empty w1
             = (Inr child_data, ids, w2)"
    and t: "pass_fetches session SENSOR_TYPES coord w
             = child_fetches session (client coord) SENSOR_TYPES children Map.empty w1"
    by (elim exE conjE)
  from assms(2) t
  have f: "\<forall>(k', a2, w2)\<in>set (child_fetches session (client coord) SENSOR_TYPES children Map.empty w1).
           k' = k \<and> norm_atom a2 = norm_atom a \<longrightarrow>
           (\<exists>e. fst (async_get session (client coord) (Some k) (Some (child_query a2)) w2) = Inl e)"
    by simp
  have "\<forall>r. (Map.empty :: snapshot) (norm_atom a) = Some r \<longrightarrow> r k = None" by simp
  from l f this show ?thesis by (rule child_loop_absent)
qed

theorem failed_fetch_slot_absent_witness:
  "async_update blip_session feeding_only demo_coordinator [] 0 =
     (Inr (JList [demo_child], [AInt 1 \<mapsto> Map.empty]),
      demo_coordinator\<lparr>child_ids := [JInt 1]\<rparr>, [], 2)
   \<and> pass_fetches blip_session feeding_only demo_coordinator 0 = [(''feeding'', AInt 1, 1)]
   \<and> fst (async_get blip_session demo_client (Some ''feeding'') (Some (child_query (AInt 1))) 1)
       = Inl (IO TimeoutError)
   \<and> fst (async_get blip_session demo_client (Some ''feeding'') (Some (child_query (AInt 1))) 3)
       = Inr demo_feeding
   \<and> async_update fading_session feeding_only demo_coordinator [] 0 =
     (Inr (JList [demo_child],
           [AInt 1 \<mapsto> [''feeding'' \<mapsto> JObj [(''id'', JInt 5), (''child'', JInt 1)]]]),
      demo_coordinator\<lparr>child_ids := [JInt 1]\<rparr>, [], 2)
   \<and> async_update fading_session feeding_only (demo_coordinator\<lparr>child_ids := [JInt 1]\<rparr>) [] 2 =
     (Inr (JList [demo_child], [AInt 1 \<mapsto> Map.empty]),
      demo_coordinator\<lparr>child_ids := [JInt 1]\<rparr>, [], 4)
   \<and> ([AInt 1 \<mapsto> Map.empty] :: snapshot) (AInt 1) = Some Map.empty
   \<and> (Map.empty :: string \<rightharpoonup> json) ''feeding'' = None"
proof -
  have c: "client (demo_coordinator\<lparr>child_ids := [JInt 1]\<rparr>) = demo_client"
    by (simp add: demo_coordinator_def)
  have t1: "pass_fetches blip_session feeding_only demo_coordinator 0 = [(''feeding'', AInt 1, 1)]"
    using one_child_pass_fetches [of blip_session 0 1 demo_coordinator]
    by (simp add: blip_children_get demo_coordinator_client)
  have t2: "pass_fetches fading_session feeding_only (demo_coordinator\<lparr>child_ids := [JInt 1]\<rparr>) 2
              = [(''feeding'', AInt 1, 3)]"
    using one_child_pass_fetches [of fading_session 2 3 "demo_coordinator\<lparr>child_ids := [JInt 1]\<rparr>"]
    by (simp add: fading_children_get c)
  have 1: "\<forall>(k', a2, w2)\<in>set (pass_fetches blip_session feeding_only demo_coordinator 0).
           k' = ''feeding'' \<and> norm_atom a2 = norm_atom (AInt 1) \<longrightarrow>
           (\<exists>e. fst (async_get blip_session (client demo_coordinator) (Some ''feeding'')
                        (Some (child_query a2)) w2) = Inl e)"
    by (simp add: t1 demo_coordinator_client blip_feeding_get)
  have 2: "\<forall>(k', a2, w2)\<in>set (pass_fetches fading_session feeding_only
                                   (demo_coordinator\<lparr>child_ids := [JInt 1]\<rparr>) 2).
           k' = ''feeding'' \<and> norm_atom a2 = norm_atom (AInt 1) \<longrightarrow>
           (\<exists>e. fst (async_get fading_session (client (demo_coordinator\<lparr>child_ids := [JInt 1]\<rparr>))
                        (Some ''feeding'') (Some (child_query a2)) w2) = Inl e)"
    by (simp add: t2 c fading_feeding_get)
  from failed_fetch_slot_absent [OF blip_pass 1] failed_fetch_slot_absent [OF fading_second_pass 2]
    blip_pass t1 fading_first_pass fading_second_pass
  show ?thesis by (simp add: blip_feeding_get)
qed

subsection \<open>A pass whose fetches all succeed\<close>

lemma endpoint_loop_total:
  assumes "\<forall>(k, a2, w2)\<in>set (endpoint_fetches session c child a eps cd w1). \<exists>ed rs.
             fst (async_get session c (Some k) (Some (child_query a2)) w2) = Inr ed
           \<and> py_getitem ed ATTR_RESULTS = Inr (JList rs)"
    and "cd (norm_atom a) \<noteq> None"
  shows "\<exists>cd' w'. endpoint_loop session c child a eps cd w1 = (Inr cd', w')"
  using assms
proof (induction eps arbitrary: cd w1)
  case Nil
  then show ?case by simp
next
  case (Cons ep eps)
  from Cons.prems(1) have "\<exists>ed rs.
             fst (async_get session c (Some (key ep)) (Some (child_query a)) w1) = Inr ed
           \<and> py_getitem ed ATTR_RESULTS = Inr (JList rs)" by simp
  then obtain ed rs where
    g: "fst (async_get session c (Some (key ep)) (Some (child_query a)) w1) = Inr ed"
    and rs: "py_getitem ed ATTR_RESULTS = Inr (JList rs)"
    by (elim exE conjE)
  obtain w2 where g': "async_get session c (Some (key ep)) (Some (child_query a)) w1 = (Inr ed, w2)"
    using g by (cases "async_get session c (Some (key ep)) (Some (child_query a)) w1") auto
  from Cons.prems(2) obtain r where r: "cd (norm_atom a) = Some r" by auto
  let ?v = "case rs of [] \<Rightarrow> JObj [] | x # _ \<Rightarrow> x"
  let ?cd = "cd(norm_atom a \<mapsto> r(key ep \<mapsto> ?v))"
  have step: "endpoint_loop session c child a (ep # eps) cd w1
                = endpoint_loop session c child a eps ?cd w2"
    by (simp add: g' rs latest_list r)
  have t: "endpoint_fetches session c child a (ep # eps) cd w1
                = (key ep, a, w1) # endpoint_fetches session c child a eps ?cd w2"
    by (simp add: g' rs latest_list r)
  have ok: "\<forall>(k, a2, w2)\<in>set (endpoint_fetches session c child a eps ?cd w2). \<exists>ed rs.
             fst (async_get session c (Some k) (Some (child_query a2)) w2) = Inr ed
           \<and> py_getitem ed ATTR_RESULTS = Inr (JList rs)"
    using Cons.prems(1) unfolding t by simp
  have n: "?cd (norm_atom a) \<noteq> None" by simp
  have "\<exists>cd' w'. endpoint_loop session c child a eps ?cd w2 = (Inr cd', w')"
    using ok n by (rule Cons.IH)
  with step show ?case by simp
qed

lemma endpoint_loop_empty:
  assumes "endpoint_loop session c child a eps cd w1 = (Inr cd', w')"
    and "\<forall>(k', a2, w2)\<in>set (endpoint_fetches session c child a eps cd w1).
           k' = k \<and> norm_atom a2 = norm_atom a0 \<longrightarrow>
           (\<exists>ed. fst (async_get session c (Some k) (Some (child_query a2)) w2) = Inr ed
               \<and> py_getitem ed ATTR_RESULTS = Inr (JList []))"
    and "norm_atom a = norm_atom a0"
    and "(\<exists>r. cd (norm_atom a0) = Some r \<and> r k = Some (JObj [])) \<or> (\<exists>ep\<in>set eps. key ep = k)"
  shows "\<exists>r. cd' (norm_atom a0) = Some r \<and> r k = Some (JObj [])"
  using assms(1,2,4)
proof (induction eps arbitrary: cd w1)
  case Nil
  then show ?case by simp
next
  case (Cons ep eps)
  obtain r1 w2 where g: "async_get session c (Some (key ep)) (Some (child_query a)) w1 = (r1, w2)"
    by (cases "async_get session c (Some (key ep)) (Some (child_query a)) w1")
  show ?case
  proof (cases r1)
    case (Inl e)
    with g have g': "async_get session c (Some (key ep)) (Some (child_query a)) w1 = (Inl e, w2)"
      by simp
    note s = endpoint_fetches_failed [OF Cons.prems(1) g']
    from s have l: "endpoint_loop session c child a eps cd w2 = (Inr cd', w')" by (rule conjunct1)
    from s Cons.prems(2)
    have h: "key ep = k \<and> norm_atom a = norm_atom a0 \<longrightarrow>
               (\<exists>ed. fst (async_get session c (Some k) (Some (child_query a)) w1) = Inr ed
                   \<and> py_getitem ed ATTR_RESULTS = Inr (JList []))"
      and f: "\<forall>(k', a2, w2)\<in>set (endpoint_fetches session c child a eps cd w2).
           k' = k \<and> norm_atom a2 = norm_atom a0 \<longrightarrow>
           (\<exists>ed. fst (async_get session c (Some k) (Some (child_query a2)) w2) = Inr ed
               \<and> py_getitem ed ATTR_RESULTS = Inr (JList []))"
      by simp_all
    have ne: "key ep \<noteq> k"
    proof
      assume "key ep = k"
      with g' have "fst (async_get session c (Some k) (Some (child_query a)) w1) = Inl e"
        by simp
      moreover from h \<open>key ep = k\<close> assms(3)
      have "\<exists>ed. fst (async_get session c (Some k) (Some (child_query a)) w1) = Inr ed" by auto
      ultimately show False by auto
    qed
    with Cons.prems(3) have "(\<exists>r. cd (norm_atom a0) = Some r \<and> r k = Some (JObj []))
          \<or> (\<exists>ep\<in>set eps. key ep = k)" by auto
    from l f this show ?thesis by (rule Cons.IH)
  next
    case (Inr ed)
    with g have g': "async_get session c (Some (key ep)) (Some (child_query a)) w1 = (Inr ed, w2)"
      by simp
    from endpoint_fetches_fetched [OF Cons.prems(1) g'] obtain data v r where
      d: "py_getitem ed ATTR_RESULTS = Inr data" and v: "latest data = Inr v"
      and r: "cd (norm_atom a) = Some r"
      and l: "endpoint_loop session c child a eps (cd(norm_atom a \<mapsto> r(key ep \<mapsto> v))) w2
                = (Inr cd', w')"
      and t: "endpoint_fetches session c child a (ep # eps) cd w1
                = (key ep, a, w1)
                  # endpoint_fetches session c child a eps (cd(norm_atom a \<mapsto> r(key ep \<mapsto> v))) w2"
      by (elim exE conjE)
    from t Cons.prems(2)
    have h: "key ep = k \<and> norm_atom a = norm_atom a0 \<longrightarrow>
               (\<exists>ed. fst (async_get session c (Some k) (Some (child_query a)) w1) = Inr ed
                   \<and> py_getitem ed ATTR_RESULTS = Inr (JList []))"
      and f: "\<forall>(k', a2, w2)\<in>set (endpoint_fetches session c child a eps
                                      (cd(norm_atom a \<mapsto> r(key ep \<mapsto> v))) w2).
           k' = k \<and> norm_atom a2 = norm_atom a0 \<longrightarrow>
           (\<exists>ed. fst (async_get session c (Some k) (Some (child_query a2)) w2) = Inr ed
               \<and> py_getitem ed ATTR_RESULTS = Inr (JList []))"
      by simp_all
    have "(\<exists>r'. (cd(norm_atom a \<mapsto> r(key ep \<mapsto> v))) (norm_atom a0) = Some r' \<and> r' k = Some (JObj []))
          \<or> (\<exists>ep\<in>set eps. key ep = k)"
    proof (cases "key ep = k")
      case True
      with h assms(3) g' have "py_getitem ed ATTR_RESULTS = Inr (JList [])" by auto
      with d have "data = JList []" by simp
      with v have "v = JObj []" by (simp add: latest_list)
      with True assms(3) show ?thesis by simp
    next
      case False
      with Cons.prems(3) r assms(3) show ?thesis by auto
    qed
    from l f this show ?thesis by (rule Cons.IH)
  qed
qed

lemma child_loop_total:
  assumes "\<forall>kid\<in>set kids. \<exists>a. py_getitem kid ATTR_ID = Inr (Atom a)"
    and "\<forall>(k, a2, w2)\<in>set (child_fetches session c S kids cd w1). \<exists>ed rs.
             fst (async_get session c (Some k) (Some (child_query a2)) w2) = Inr ed
           \<and> py_getitem ed ATTR_RESULTS = Inr (JList rs)"
  shows "\<exists>cd' ids' w'. child_loop session c S kids ids cd w1 = (Inr cd', ids', w')"
  using assms
proof (induction kids arbitrary: ids cd w1)
  case Nil
  then show ?case by simp
next
  case (Cons kid kids)
  from Cons.prems(1) have "\<exists>a. py_getitem kid ATTR_ID = Inr (Atom a)" by simp
  then obtain a where a: "py_getitem kid ATTR_ID = Inr (Atom a)" ..
  let ?cd = "setdefault_empty cd (norm_atom a)"
  have t: "child_fetches session c S (kid # kids) cd w1
             = endpoint_fetches session c kid a S ?cd w1
               @ (case endpoint_loop session c kid a S ?cd w1 of
                    (Inl e, w') \<Rightarrow> []
                  | (Inr child_data', w') \<Rightarrow> child_fetches session c S kids child_data' w')"
    by (simp add: a)
  have ok: "\<forall>(k, a2, w2)\<in>set (endpoint_fetches session c kid a S ?cd w1). \<exists>ed rs.
             fst (async_get session c (Some k) (Some (child_query a2)) w2) = Inr ed
           \<and> py_getitem ed ATTR_RESULTS = Inr (JList rs)"
    using Cons.prems(2) unfolding t by simp
  have n: "?cd (norm_atom a) \<noteq> None"
    by (simp add: setdefault_empty_def split: option.splits)
  have "\<exists>cd' w'. endpoint_loop session c kid a S ?cd w1 = (Inr cd', w')"
    using ok n by (rule endpoint_loop_total)
  then obtain cd1 w2 where e: "endpoint_loop session c kid a S ?cd w1 = (Inr cd1, w2)"
    by (elim exE)
  have step: "child_loop session c S (kid # kids) ids cd w1
      = child_loop session c S kids (note_child_id (Atom a) ids) cd1 w2"
    by (simp add: a e)
  from Cons.prems(1) have p1: "\<forall>kid\<in>set kids. \<exists>a. py_getitem kid ATTR_ID = Inr (Atom a)"
    by simp
  have t2: "child_fetches session c S (kid # kids) cd w1
             = endpoint_fetches session c kid a S ?cd w1 @ child_fetches session c S kids cd1 w2"
    by (simp add: a e)
  have p2: "\<forall>(k, a2, w2)\<in>set (child_fetches session c S kids cd1 w2). \<exists>ed rs.
             fst (async_get session c (Some k) (Some (child_query a2)) w2) = Inr ed
           \<and> py_getitem ed ATTR_RESULTS = Inr (JList rs)"
    using Cons.prems(2) unfolding t2 by simp
  have "\<exists>cd' ids' w'. child_loop session c S kids (note_child_id (Atom a) ids) cd1 w2
          = (Inr cd', ids', w')"
    using p1 p2 by (rule Cons.IH)
  with step show ?case by simp
qed

lemma child_loop_empty:
  assumes "child_loop session c S kids ids cd w1 = (Inr cd', ids', w')"
    and "\<forall>(k', a2, w2)\<in>set (child_fetches session c S kids cd w1).
           k' = k \<and> norm_atom a2 = norm_atom a \<longrightarrow>
           (\<exists>ed. fst (async_get session c (Some k) (Some (child_query a2)) w2) = Inr ed
               \<and> py_getitem ed ATTR_RESULTS = Inr (JList []))"
    and "\<exists>ep\<in>set S. key ep = k"
    and "(\<exists>r. cd (norm_atom a) = Some r \<and> r k = Some (JObj []))
         \<or> (\<exists>kid\<in>set kids. \<exists>a2. py_getitem kid ATTR_ID = Inr (Atom a2) \<and> norm_atom a2 = norm_atom a)"
  shows "\<exists>r. cd' (norm_atom a) = Some r \<and> r k = Some (JObj [])"
  using assms(1,2,4)
proof (induction kids arbitrary: ids cd w1)
  case Nil
  then show ?case by simp
next
  case (Cons kid kids)
  from child_fetches_step [OF Cons.prems(1)] obtain a2 cd1 w2 where
    a2: "py_getitem kid ATTR_ID = Inr (Atom a2)"
    and e: "endpoint_loop session c kid a2 S (setdefault_empty cd (norm_atom a2)) w1 = (Inr cd1, w2)"
    and l: "child_loop session c S kids (note_child_id (Atom a2) ids) cd1 w2 = (Inr cd', ids', w')"
    and t: "child_fetches session c S (kid # kids) cd w1
                = endpoint_fetches session c kid a2 S (setdefault_empty cd (norm_atom a2)) w1
                  @ child_fetches session c S kids cd1 w2"
    by (elim exE conjE)
  from t Cons.prems(2)
  have here: "\<forall>(k', a3, w3)\<in>set (endpoint_fetches session c kid a2 S
                                      (setdefault_empty cd (norm_atom a2)) w1).
           k' = k \<and> norm_atom a3 = norm_atom a \<longrightarrow>
           (\<exists>ed. fst (async_get session c (Some k) (Some (child_query a3)) w3) = Inr ed
               \<and> py_getitem ed ATTR_RESULTS = Inr (JList []))"
    and rest: "\<forall>(k', a3, w3)\<in>set (child_fetches session c S kids cd1 w2).
           k' = k \<and> norm_atom a3 = norm_atom a \<longrightarrow>
           (\<exists>ed. fst (async_get session c (Some k) (Some (child_query a3)) w3) = Inr ed
               \<and> py_getitem ed ATTR_RESULTS = Inr (JList []))"
    by simp_all
  have "(\<exists>r. cd1 (norm_atom a) = Some r \<and> r k = Some (JObj []))
         \<or> (\<exists>kid\<in>set kids. \<exists>a2. py_getitem kid ATTR_ID = Inr (Atom a2) \<and> norm_atom a2 = norm_atom a)"
  proof (cases "norm_atom a2 = norm_atom a")
    case True
    from assms(3)
    have "(\<exists>r. setdefault_empty cd (norm_atom a2) (norm_atom a) = Some r \<and> r k = Some (JObj []))
        \<or> (\<exists>ep\<in>set S. key ep = k)" by simp
    with e here True have "\<exists>r. cd1 (norm_atom a) = Some r \<and> r k = Some (JObj [])"
      by (rule endpoint_loop_empty)
    then show ?thesis by simp
  next
    case False
    then have "cd1 (norm_atom a) = cd (norm_atom a)"
      using endpoint_loop_frame [OF e, of "norm_atom a"] by (simp add: setdefault_empty_other)
    with Cons.prems(3) a2 False show ?thesis by auto
  qed
  from l rest this show ?case by (rule Cons.IH)
qed

text \<open>
  C1. Whenever \<open>async_update\<close> returns, it returns the \<open>results\<close> of the children list
  it fetched and a snapshot whose keys are exactly the ids of these children; and for a
  child of the list and an endpoint of \<open>SENSOR_TYPES\<close>, if every fetch of this pair that
  the pass makes returns an empty \<open>results\<close> list, the slot holds the empty record.
  And it does return when the children fetch returns a body with a \<open>count\<close> other
  than 0 and a list of children as \<open>results\<close>, each child with a scalar \<open>id\<close>, every
  fetch that the pass makes returns a body whose \<open>results\<close> is a list, and every device
  of this config entry has an identifier. The fetches are those of this pass, each in
  the world in which the pass makes it. For the list with the one child 1 and the one
  endpoint \<open>feeding\<close> without results the snapshot is \<open>{1: {"feeding": {}}}\<close>.
\<close>

theorem snapshot_keys:
  "(async_update session SENSOR_TYPES coord dr w = (Inr (results, child_data), coord', dr', w') \<longrightarrow>
      (\<exists>children_list children.
          fst (async_get session (client coord) (Some ATTR_CHILDREN) None w) = Inr children_list
        \<and> py_getitem children_list ATTR_RESULTS = Inr results
        \<and> py_iter results = Inr children
        \<and> dom child_data
            = {norm_atom a |a. \<exists>child\<in>set children. py_getitem child ATTR_ID = Inr (Atom a)}
        \<and> (\<forall>a endpoint.
              endpoint \<in> set SENSOR_TYPES
            \<and> (\<exists>child\<in>set children. py_getitem child ATTR_ID = Inr (Atom a))
            \<and> (\<forall>(k, a2, w2)\<in>set (pass_fetches session SENSOR_TYPES coord w).
                  k = key endpoint \<and> norm_atom a2 = norm_atom a \<longrightarrow>
                  (\<exists>endpoint_data.
                      fst (async_get session (client coord) (Some k) (Some (child_query a2)) w2)
                        = Inr endpoint_data
                    \<and> py_getitem endpoint_data ATTR_RESULTS = Inr (JList [])))
            \<longrightarrow> (\<exists>r. child_data (norm_atom a) = Some r \<and> r (key endpoint) = Some (JObj [])))))
   \<and> (fst (async_get session (client coord) (Some ATTR_CHILDREN) None w) = Inr fetched
      \<and> py_getitem fetched ATTR_COUNT = Inr n \<and> \<not> py_eq n (JInt 0)
      \<and> py_getitem fetched ATTR_RESULTS = Inr (JList kids)
      \<and> (\<forall>child\<in>set kids. \<exists>a. py_getitem child ATTR_ID = Inr (Atom a))
      \<and> (\<forall>(k, a, w2)\<in>set (pass_fetches session SENSOR_TYPES coord w). \<exists>endpoint_data rs.
             fst (async_get session (client coord) (Some k) (Some (child_query a)) w2)
               = Inr endpoint_data
           \<and> py_getitem endpoint_data ATTR_RESULTS = Inr (JList rs))
      \<and> (\<forall>d\<in>set dr. config_entry_id coord \<in> set (config_entries d) \<longrightarrow> identifiers d \<noteq> [])
      \<longrightarrow> (\<exists>snapshot coord2 dr2 w3.
             async_update session SENSOR_TYPES coord dr w
               = (Inr (JList kids, snapshot), coord2, dr2, w3)))"
proof (intro conjI impI)
  assume run: "async_update session SENSOR_TYPES coord dr w
                 = (Inr (results, child_data), coord', dr', w')"
  from pass_fetches_returned [OF run] obtain children_list children ids w1 w2 where
    g: "async_get session (client coord) (Some ATTR_CHILDREN) None w = (Inr children_list, w1)"
    and rs: "py_getitem children_list ATTR_RESULTS = Inr results"
    and it: "py_iter results = Inr children"
    and l: "child_loop session (client coord) SENSOR_TYPES children (child_ids coord) Map.empty w1
             = (Inr child_data, ids, w2)"
    and t: "pass_fetches session SENSOR_TYPES coord w
             = child_fetches session (client coord) SENSOR_TYPES children Map.empty w1"
    by (elim exE conjE)
  from g have f: "fst (async_get session (client coord) (Some ATTR_CHILDREN) None w)
                    = Inr children_list" by simp
  have d: "dom child_data
            = {norm_atom a |a. \<exists>child\<in>set children. py_getitem child ATTR_ID = Inr (Atom a)}"
    using child_loop_dom [OF l] by simp
  have empty: "\<exists>r. child_data (norm_atom a) = Some r \<and> r (key endpoint) = Some (JObj [])"
    if e: "endpoint \<in> set SENSOR_TYPES"
      and c: "\<exists>child\<in>set children. py_getitem child ATTR_ID = Inr (Atom a)"
      and h: "\<forall>(k, a2, w2)\<in>set (pass_fetches session SENSOR_TYPES coord w).
                  k = key endpoint \<and> norm_atom a2 = norm_atom a \<longrightarrow>
                  (\<exists>endpoint_data.
                      fst (async_get session (client coord) (Some k) (Some (child_query a2)) w2)
                        = Inr endpoint_data
                    \<and> py_getitem endpoint_data ATTR_RESULTS = Inr (JList []))"
    for a endpoint
  proof -
    have h': "\<forall>(k', a2, w2)\<in>set (child_fetches session (client coord) SENSOR_TYPES children
                                     Map.empty w1).
                k' = key endpoint \<and> norm_atom a2 = norm_atom a \<longrightarrow>
                (\<exists>ed. fst (async_get session (client coord) (Some (key endpoint))
                             (Some (child_query a2)) w2) = Inr ed
                    \<and> py_getitem ed ATTR_RESULTS = Inr (JList []))"
      using h unfolding t by auto
    from e have 1: "\<exists>ep\<in>set SENSOR_TYPES. key ep = key endpoint" by blast
    from c have 2: "(\<exists>r. (Map.empty :: snapshot) (norm_atom a) = Some r
                          \<and> r (key endpoint) = Some (JObj []))
         \<or> (\<exists>kid\<in>set children. \<exists>a2. py_getitem kid ATTR_ID = Inr (Atom a2)
                                      \<and> norm_atom a2 = norm_atom a)"
      by blast
    from l h' 1 2 show ?thesis by (rule child_loop_empty)
  qed
  have "\<forall>a endpoint.
              endpoint \<in> set SENSOR_TYPES
            \<and> (\<exists>child\<in>set children. py_getitem child ATTR_ID = Inr (Atom a))
            \<and> (\<forall>(k, a2, w2)\<in>set (pass_fetches session SENSOR_TYPES coord w).
                  k = key endpoint \<and> norm_atom a2 = norm_atom a \<longrightarrow>
                  (\<exists>endpoint_data.
                      fst (async_get session (client coord) (Some k) (Some (child_query a2)) w2)
                        = Inr endpoint_data
                    \<and> py_getitem endpoint_data ATTR_RESULTS = Inr (JList [])))
            \<longrightarrow> (\<exists>r. child_data (norm_atom a) = Some r \<and> r (key endpoint) = Some (JObj []))"
  proof (intro allI impI)
    fix a endpoint
    assume "endpoint \<in> set SENSOR_TYPES
            \<and> (\<exists>child\<in>set children. py_getitem child ATTR_ID = Inr (Atom a))
            \<and> (\<forall>(k, a2, w2)\<in>set (pass_fetches session SENSOR_TYPES coord w).
                  k = key endpoint \<and> norm_atom a2 = norm_atom a \<longrightarrow>
                  (\<exists>endpoint_data.
                      fst (async_get session (client coord) (Some k) (Some (child_query a2)) w2)
                        = Inr endpoint_data
                    \<and> py_getitem endpoint_data ATTR_RESULTS = Inr (JList [])))"
    then show "\<exists>r. child_data (norm_atom a) = Some r \<and> r (key endpoint) = Some (JObj [])"
      by (elim conjE) (rule empty)
  qed
  with f rs it d
  show "\<exists>children_list children.
          fst (async_get session (client coord) (Some ATTR_CHILDREN) None w) = Inr children_list
        \<and> py_getitem children_list ATTR_RESULTS = Inr results
        \<and> py_iter results = Inr children
        \<and> dom child_data
            = {norm_atom a |a. \<exists>child\<in>set children. py_getitem child ATTR_ID = Inr (Atom a)}
        \<and> (\<forall>a endpoint.
              endpoint \<in> set SENSOR_TYPES
            \<and> (\<exists>child\<in>set children. py_getitem child ATTR_ID = Inr (Atom a))
            \<and> (\<forall>(k, a2, w2)\<in>set (pass_fetches session SENSOR_TYPES coord w).
                  k = key endpoint \<and> norm_atom a2 = norm_atom a \<longrightarrow>
                  (\<exists>endpoint_data.
                      fst (async_get session (client coord) (Some k) (Some (child_query a2)) w2)
                        = Inr endpoint_data
                    \<and> py_getitem endpoint_data ATTR_RESULTS = Inr (JList [])))
            \<longrightarrow> (\<exists>r. child_data (norm_atom a) = Some r \<and> r (key endpoint) = Some (JObj [])))"
    by (intro exI conjI)
next
  assume hyps: "fst (async_get session (client coord) (Some ATTR_CHILDREN) None w) = Inr fetched
      \<and> py_getitem fetched ATTR_COUNT = Inr n \<and> \<not> py_eq n (JInt 0)
      \<and> py_getitem fetched ATTR_RESULTS = Inr (JList kids)
      \<and> (\<forall>child\<in>set kids. \<exists>a. py_getitem child ATTR_ID = Inr (Atom a))
      \<and> (\<forall>(k, a, w2)\<in>set (pass_fetches session SENSOR_TYPES coord w). \<exists>endpoint_data rs.
             fst (async_get session (client coord) (Some k) (Some (child_query a)) w2)
               = Inr endpoint_data
           \<and> py_getitem endpoint_data ATTR_RESULTS = Inr (JList rs))
      \<and> (\<forall>d\<in>set dr. config_entry_id coord \<in> set (config_entries d) \<longrightarrow> identifiers d \<noteq> [])"
  then have fetch: "fst (async_get session (client coord) (Some ATTR_CHILDREN) None w) = Inr fetched"
    and count: "py_getitem fetched ATTR_COUNT = Inr n" "\<not> py_eq n (JInt 0)"
    and results: "py_getitem fetched ATTR_RESULTS = Inr (JList kids)"
    and ids: "\<forall>child\<in>set kids. \<exists>a. py_getitem child ATTR_ID = Inr (Atom a)"
    and ok: "\<forall>(k, a, w2)\<in>set (pass_fetches session SENSOR_TYPES coord w). \<exists>endpoint_data rs.
             fst (async_get session (client coord) (Some k) (Some (child_query a)) w2)
               = Inr endpoint_data
           \<and> py_getitem endpoint_data ATTR_RESULTS = Inr (JList rs)"
    and devices: "\<forall>d\<in>set dr. config_entry_id coord \<in> set (config_entries d) \<longrightarrow> identifiers d \<noteq> []"
    by simp_all
  obtain w1 where g: "async_get session (client coord) (Some ATTR_CHILDREN) None w = (Inr fetched, w1)"
    using fetch by (cases "async_get session (client coord) (Some ATTR_CHILDREN) None w") auto
  have t: "pass_fetches session SENSOR_TYPES coord w
             = child_fetches session (client coord) SENSOR_TYPES kids Map.empty w1"
    by (simp add: pass_fetches_def g count results)
  have ok': "\<forall>(k, a2, w2)\<in>set (child_fetches session (client coord) SENSOR_TYPES kids Map.empty w1).
               \<exists>ed rs.
                 fst (async_get session (client coord) (Some k) (Some (child_query a2)) w2) = Inr ed
               \<and> py_getitem ed ATTR_RESULTS = Inr (JList rs)"
    using ok unfolding t .
  have "\<exists>cd' ids' w'. child_loop session (client coord) SENSOR_TYPES kids (child_ids coord)
                          Map.empty w1 = (Inr cd', ids', w')"
    using ids ok' by (rule child_loop_total)
  then obtain cd ids' w2 where
    l: "child_loop session (client coord) SENSOR_TYPES kids (child_ids coord) Map.empty w1
          = (Inr cd, ids', w2)"
    by (elim exE)
  have "config_entry_id (coord\<lparr>child_ids := ids'\<rparr>) = config_entry_id coord" by simp
  with devices have "fst (async_remove_deleted_childs (coord\<lparr>child_ids := ids'\<rparr>) dr) = Inr ()"
    using async_remove_deleted_childs_returns [of dr "coord\<lparr>child_ids := ids'\<rparr>"] by simp
  then obtain dr2 where rm: "async_remove_deleted_childs (coord\<lparr>child_ids := ids'\<rparr>) dr = (Inr (), dr2)"
    by (cases "async_remove_deleted_childs (coord\<lparr>child_ids := ids'\<rparr>) dr") auto
  have "async_update session SENSOR_TYPES coord dr w
               = (Inr (JList kids, cd), coord\<lparr>child_ids := ids'\<rparr>, dr2, w2)"
    by (simp add: async_update_def g count results l rm del: child_loop.simps)
  then show "\<exists>snapshot coord2 dr2 w3.
             async_update session SENSOR_TYPES coord dr w
               = (Inr (JList kids, snapshot), coord2, dr2, w3)"
    by (intro exI)
qed

theorem snapshot_keys_witness:
  "async_update (scripted_session (demo_server (ok_json demo_children) (ok_json no_feeding)))
          feeding_only demo_coordinator demo_devices 0
     = (Inr (JList [demo_child], [AInt 1 \<mapsto> [''feeding'' \<mapsto> JObj []]]),
        demo_coordinator\<lparr>child_ids := [JInt 1]\<rparr>,
        [\<lparr>device_id = ''d1'', config_entries = [''e1''], identifiers = [(''babybuddy'', JInt 1)]\<rparr>,
         \<lparr>device_id = ''d3'', config_entries = [''e2''], identifiers = [(''other'', JInt 2)]\<rparr>],
        2)
   \<and> pass_fetches (scripted_session (demo_server (ok_json demo_children) (ok_json no_feeding)))
       feeding_only demo_coordinator 0 = [(''feeding'', AInt 1, 1)]
   \<and> dom ([AInt 1 \<mapsto> [''feeding'' \<mapsto> JObj []]] :: snapshot) = {AInt 1}
   \<and> (\<exists>r. ([AInt 1 \<mapsto> [''feeding'' \<mapsto> JObj []]] :: snapshot) (AInt 1) = Some r
           \<and> r ''feeding'' = Some (JObj []))
   \<and> pass_fetches fading_session feeding_only demo_coordinator 0 = [(''feeding'', AInt 1, 1)]
   \<and> (\<exists>snapshot coord2 dr2 w3.
         async_update fading_session feeding_only demo_coordinator [] 0
           = (Inr (JList [demo_child], snapshot), coord2, dr2, w3))"
proof -
  let ?s = "scripted_session (demo_server (ok_json demo_children) (ok_json no_feeding))"
  have t1: "pass_fetches ?s feeding_only demo_coordinator 0 = [(''feeding'', AInt 1, 1)]"
    using one_child_pass_fetches [of ?s 0 1 demo_coordinator]
    by (simp add: demo_children_get read_json_ok demo_coordinator_client)
  have t2: "pass_fetches fading_session feeding_only demo_coordinator 0 = [(''feeding'', AInt 1, 1)]"
    using one_child_pass_fetches [of fading_session 0 1 demo_coordinator]
    by (simp add: fading_children_get demo_coordinator_client)
  have ok1: "\<forall>(k, a2, w2)\<in>set (pass_fetches ?s feeding_only demo_coordinator 0).
                  k = key \<lparr>key = ''feeding''\<rparr> \<and> norm_atom a2 = norm_atom (AInt 1) \<longrightarrow>
                  (\<exists>endpoint_data.
                      fst (async_get ?s (client demo_coordinator) (Some k) (Some (child_query a2)) w2)
                        = Inr endpoint_data
                    \<and> py_getitem endpoint_data ATTR_RESULTS = Inr (JList []))"
    unfolding t1
    by (simp add: demo_coordinator_client demo_feeding_get read_json_ok no_feeding_def
        ATTR_RESULTS_def)
  have e: "\<lparr>key = ''feeding''\<rparr> \<in> set feeding_only
            \<and> (\<exists>child\<in>set [demo_child]. py_getitem child ATTR_ID = Inr (Atom (AInt 1)))
            \<and> (\<forall>(k, a2, w2)\<in>set (pass_fetches ?s feeding_only demo_coordinator 0).
                  k = key \<lparr>key = ''feeding''\<rparr> \<and> norm_atom a2 = norm_atom (AInt 1) \<longrightarrow>
                  (\<exists>endpoint_data.
                      fst (async_get ?s (client demo_coordinator) (Some k) (Some (child_query a2)) w2)
                        = Inr endpoint_data
                    \<and> py_getitem endpoint_data ATTR_RESULTS = Inr (JList [])))"
  proof (intro conjI)
    show "\<lparr>key = ''feeding''\<rparr> \<in> set feeding_only" by (simp add: feeding_only_def)
    show "\<exists>child\<in>set [demo_child]. py_getitem child ATTR_ID = Inr (Atom (AInt 1))"
      by (simp add: demo_child_id)
  qed (rule ok1)
  have z: "\<not> py_eq (JInt 1) (JInt 0)" by simp
  have i: "\<forall>child\<in>set [demo_child]. \<exists>a. py_getitem child ATTR_ID = Inr (Atom a)"
    by (simp add: demo_child_id)
  have g1: "fst (async_get ?s (client demo_coordinator) (Some ATTR_CHILDREN) None 0)
              = Inr demo_children"
    by (simp add: demo_coordinator_client demo_children_get read_json_ok)
  have a1: "\<forall>(k, a, w2)\<in>set (pass_fetches ?s feeding_only demo_coordinator 0). \<exists>endpoint_data rs.
             fst (async_get ?s (client demo_coordinator) (Some k) (Some (child_query a)) w2)
               = Inr endpoint_data
           \<and> py_getitem endpoint_data ATTR_RESULTS = Inr (JList rs)"
    unfolding t1
    by (simp add: demo_coordinator_client demo_feeding_get read_json_ok no_feeding_def
        ATTR_RESULTS_def)
  have d1: "\<forall>d\<in>set demo_devices.
            config_entry_id demo_coordinator \<in> set (config_entries d) \<longrightarrow> identifiers d \<noteq> []"
    by (simp add: demo_devices_def)
  have h1: "fst (async_get ?s (client demo_coordinator) (Some ATTR_CHILDREN) None 0) = Inr demo_children
      \<and> py_getitem demo_children ATTR_COUNT = Inr (JInt 1) \<and> \<not> py_eq (JInt 1) (JInt 0)
      \<and> py_getitem demo_children ATTR_RESULTS = Inr (JList [demo_child])
      \<and> (\<forall>child\<in>set [demo_child]. \<exists>a. py_getitem child ATTR_ID = Inr (Atom a))
      \<and> (\<forall>(k, a, w2)\<in>set (pass_fetches ?s feeding_only demo_coordinator 0). \<exists>endpoint_data rs.
             fst (async_get ?s (client demo_coordinator) (Some k) (Some (child_query a)) w2)
               = Inr endpoint_data
           \<and> py_getitem endpoint_data ATTR_RESULTS = Inr (JList rs))
      \<and> (\<forall>d\<in>set demo_devices.
            config_entry_id demo_coordinator \<in> set (config_entries d) \<longrightarrow> identifiers d \<noteq> [])"
    using g1 demo_children_count z demo_children_results i a1 d1 by (intro conjI)
  have g2: "fst (async_get fading_session (client demo_coordinator) (Some ATTR_CHILDREN) None 0)
        = Inr demo_children"
    by (simp add: demo_coordinator_client fading_children_get)
  have a2: "\<forall>(k, a, w2)\<in>set (pass_fetches fading_session feeding_only demo_coordinator 0).
           \<exists>endpoint_data rs.
             fst (async_get fading_session (client demo_coordinator) (Some k) (Some (child_query a)) w2)
               = Inr endpoint_data
           \<and> py_getitem endpoint_data ATTR_RESULTS = Inr (JList rs)"
    unfolding t2
    by (simp add: demo_coordinator_client fading_feeding_get demo_feeding_def ATTR_RESULTS_def)
  have d2: "\<forall>d\<in>set []. config_entry_id demo_coordinator \<in> set (config_entries d)
              \<longrightarrow> identifiers d \<noteq> []"
    by simp
  have h2: "fst (async_get fading_session (client demo_coordinator) (Some ATTR_CHILDREN) None 0)
        = Inr demo_children
      \<and> py_getitem demo_children ATTR_COUNT = Inr (JInt 1) \<and> \<not> py_eq (JInt 1) (JInt 0)
      \<and> py_getitem demo_children ATTR_RESULTS = Inr (JList [demo_child])
      \<and> (\<forall>child\<in>set [demo_child]. \<exists>a. py_getitem child ATTR_ID = Inr (Atom a))
      \<and> (\<forall>(k, a, w2)\<in>set (pass_fetches fading_session feeding_only demo_coordinator 0).
           \<exists>endpoint_data rs.
             fst (async_get fading_session (client demo_coordinator) (Some k) (Some (child_query a)) w2)
               = Inr endpoint_data
           \<and> py_getitem endpoint_data ATTR_RESULTS = Inr (JList rs))
      \<and> (\<forall>d\<in>set []. config_entry_id demo_coordinator \<in> set (config_entries d) \<longrightarrow> identifiers d \<noteq> [])"
    using g2 demo_children_count z demo_children_results i a2 d2 by (intro conjI)
  note pass = snapshot_keys [where session = ?s and SENSOR_TYPES = feeding_only
      and coord = demo_coordinator and dr = demo_devices and w = 0
      and fetched = demo_children and n = "JInt 1" and kids = "[demo_child]"]
  from pass [THEN conjunct2, THEN mp, OF h1] obtain snapshot coord2 dr2 w3 where
    run: "async_update ?s feeding_only demo_coordinator demo_devices 0
            = (Inr (JList [demo_child], snapshot), coord2, dr2, w3)"
    by (elim exE)
  from snapshot_keys [THEN conjunct1, THEN mp, OF run] obtain children where
    it: "py_iter (JList [demo_child]) = Inr children"
    and d: "dom snapshot
             = {norm_atom a |a. \<exists>child\<in>set children. py_getitem child ATTR_ID = Inr (Atom a)}"
    and s: "\<forall>a endpoint.
              endpoint \<in> set feeding_only
            \<and> (\<exists>child\<in>set children. py_getitem child ATTR_ID = Inr (Atom a))
            \<and> (\<forall>(k, a2, w2)\<in>set (pass_fetches ?s feeding_only demo_coordinator 0).
                  k = key endpoint \<and> norm_atom a2 = norm_atom a \<longrightarrow>
                  (\<exists>endpoint_data.
                      fst (async_get ?s (client demo_coordinator) (Some k) (Some (child_query a2)) w2)
                        = Inr endpoint_data
                    \<and> py_getitem endpoint_data ATTR_RESULTS = Inr (JList [])))
            \<longrightarrow> (\<exists>r. snapshot (norm_atom a) = Some r \<and> r (key endpoint) = Some (JObj []))"
    by (elim exE conjE)
  from it have c: "children = [demo_child]" by simp
  from s have "\<lparr>key = ''feeding''\<rparr> \<in> set feeding_only
            \<and> (\<exists>child\<in>set children. py_getitem child ATTR_ID = Inr (Atom (AInt 1)))
            \<and> (\<forall>(k, a2, w2)\<in>set (pass_fetches ?s feeding_only demo_coordinator 0).
                  k = key \<lparr>key = ''feeding''\<rparr> \<and> norm_atom a2 = norm_atom (AInt 1) \<longrightarrow>
                  (\<exists>endpoint_data.
                      fst (async_get ?s (client demo_coordinator) (Some k) (Some (child_query a2)) w2)
                        = Inr endpoint_data
                    \<and> py_getitem endpoint_data ATTR_RESULTS = Inr (JList [])))
            \<longrightarrow> (\<exists>r. snapshot (norm_atom (AInt 1)) = Some r
                     \<and> r (key \<lparr>key = ''feeding''\<rparr>) = Some (JObj []))"
    by blast
  with e c have slot: "\<exists>r. snapshot (norm_atom (AInt 1)) = Some r
                     \<and> r (key \<lparr>key = ''feeding''\<rparr>) = Some (JObj [])" by simp
  from run demo_pass have sn: "snapshot = [AInt 1 \<mapsto> [''feeding'' \<mapsto> JObj []]]" by simp
  from snapshot_keys [where session = fading_session and SENSOR_TYPES = feeding_only
      and coord = demo_coordinator and dr = "[]" and w = 0
      and fetched = demo_children and n = "JInt 1" and kids = "[demo_child]",
      THEN conjunct2, THEN mp, OF h2]
  have f: "\<exists>snapshot coord2 dr2 w3.
         async_update fading_session feeding_only demo_coordinator [] 0
           = (Inr (JList [demo_child], snapshot), coord2, dr2, w3)" .
  have dm: "dom ([AInt 1 \<mapsto> [''feeding'' \<mapsto> JObj []]] :: snapshot) = {AInt 1}"
    using d c sn by (simp add: demo_child_id)
  have sl: "\<exists>r. ([AInt 1 \<mapsto> [''feeding'' \<mapsto> JObj []]] :: snapshot) (AInt 1) = Some r
           \<and> r ''feeding'' = Some (JObj [])"
    using slot sn by simp
  from demo_pass t1 dm sl t2 f show ?thesis by (intro conjI)
qed

end
